theory Spec2Isabelle
  imports Complex_Main "HOL-Library.Sublist"
begin

section \<open>ConCommerce: the retrieval-and-grounding pipeline\<close>

text \<open>
  A shallow embedding of \<^verbatim>\<open>lib/vector-search.ts\<close>, \<^verbatim>\<open>lib/query-parser.ts\<close>
  (\<^verbatim>\<open>mergeFilters\<close>) and the chat route handler (\<^verbatim>\<open>POST\<close> with
  \<^verbatim>\<open>isCasualMessage\<close> and \<^verbatim>\<open>shouldUseConversationHistory\<close>).

  Conventions.
  \<^item> Prices are \<open>int\<close> (the catalogue's integer currency units); relevance scores are
    \<open>rat\<close>, the thresholds \<open>0.5\<close> and \<open>0.4\<close> being \<open>1/2\<close> and \<open>2/5\<close>.
  \<^item> A JavaScript string is a \<open>string\<close> of bytes (UTF-8). \<^verbatim>\<open>toLowerCase\<close>,
    \<^verbatim>\<open>trim\<close> and the regular expression class \<^verbatim>\<open>\s\<close> are the ASCII ones; bytes from
    \<open>0x80\<close> on are left alone.
  \<^item> An optional property (\<^verbatim>\<open>x?: T\<close>, or a property of an \<^verbatim>\<open>any\<close> object that may be
    \<^verbatim>\<open>undefined\<close>) is an \<open>option\<close>.
  \<^item> A function that can throw returns a sum, \<open>Inl\<close> carrying the error.
  \<^item> The external collaborators (query interpreter, embedding provider, similarity index,
    text generator, number formatting of the host locale) are parameters.
\<close>

subsection \<open>String primitives\<close>

definition isSpace :: "char \<Rightarrow> bool" where
  \<comment> \<open>the ASCII members of \<^verbatim>\<open>\s\<close>: tab, line feed, vertical tab, form feed, carriage return, space\<close>
  "isSpace c = (c \<in> set [CHR 0x09, CHR 0x0A, CHR 0x0B, CHR 0x0C, CHR 0x0D, CHR 0x20])"

definition lowerChar :: "char \<Rightarrow> char" where
  "lowerChar c =
     (case map_of (zip ''ABCDEFGHIJKLMNOPQRSTUVWXYZ'' ''abcdefghijklmnopqrstuvwxyz'') c of
        None \<Rightarrow> c
      | Some l \<Rightarrow> l)"

definition toLowerCase :: "string \<Rightarrow> string" where
  "toLowerCase s = map lowerChar s"

definition trim :: "string \<Rightarrow> string" where
  "trim s = rev (dropWhile isSpace (rev (dropWhile isSpace s)))"

fun startsWith :: "'a list \<Rightarrow> 'a list \<Rightarrow> bool" where
  "startsWith s [] = True"
| "startsWith [] (k # ks) = False"
| "startsWith (c # cs) (k # ks) = (c = k \<and> startsWith cs ks)"

fun includesStr :: "'a list \<Rightarrow> 'a list \<Rightarrow> bool" where
  \<comment> \<open>\<^verbatim>\<open>s.includes(k)\<close>: \<open>k\<close> occurs in \<open>s\<close> as a contiguous block\<close>
  "includesStr [] k = (k = [])"
| "includesStr (c # cs) k = (startsWith (c # cs) k \<or> includesStr cs k)"

fun some :: "('a \<Rightarrow> bool) \<Rightarrow> 'a list \<Rightarrow> bool" where
  \<comment> \<open>\<^verbatim>\<open>Array.prototype.some\<close>\<close>
  "some P [] = False"
| "some P (x # xs) = (P x \<or> some P xs)"

subsection \<open>Data model (\<^verbatim>\<open>lib/types.ts\<close>)\<close>

record Specs =
  processor :: "string option"
  ram :: "string option"
  storage :: "string option"
  graphics :: "string option"

record Product =
  product_id :: string
  name :: string
  price_min :: int
  price_max :: int
  brand :: string
  category :: string
  source :: string
  url :: string
  image_url :: string
  specs :: Specs
  warranty :: string
  availability :: "string option"
  rating :: "rat option"
  reviews_count :: "int option"

datatype Role = User | Assistant

record Message =
  role :: Role
  content :: string
  products :: "Product list option"

datatype EmbeddingModel = OpenAI | HuggingFace

datatype LLMProvider = ProviderOpenAI | ProviderGemini

text \<open>
  \<^verbatim>\<open>FilterState\<close>, as \<^verbatim>\<open>mergeFilters\<close> and \<^verbatim>\<open>POST\<close> read it: an \<^verbatim>\<open>any\<close> object whose four
  properties may each be missing. The merged filter has the same shape. A price range is
  the pair \<^verbatim>\<open>[number, number]\<close> of the declared type, so the length test
  \<^verbatim>\<open>priceRange.length === 2\<close> of the retriever holds whenever the range is present.
\<close>

record Filters =
  priceRange :: "(int \<times> int) option"
  categories :: "string list option"
  brands :: "string list option"
  sources :: "string list option"

datatype ProductCount = Single | Multiple | Comparison | AnyCount

datatype Action = Find | Compare | Recommend | Info

record Intent =
  productCount :: ProductCount
  action :: Action

record ParsedQuery =
  pq_priceRange :: "(int \<times> int) option"
  pq_brands :: "string list option"
  pq_categories :: "string list option"
  pq_sources :: "string list option"
  pq_specs :: "Specs option"
  pq_intent :: "Intent option"

datatype error =
    TypeError
  | VectorSearchFailed

subsection \<open>Filter Merger (\<^verbatim>\<open>mergeFilters\<close>)\<close>

fun setInsertAll :: "'a list \<Rightarrow> 'a list \<Rightarrow> 'a list" where
  \<comment> \<open>inserting the elements one by one into a \<^verbatim>\<open>Set\<close> whose insertion order is \<open>seen\<close>\<close>
  "setInsertAll seen [] = seen"
| "setInsertAll seen (x # xs) =
     (if x \<in> set seen then setInsertAll seen xs else setInsertAll (seen @ [x]) xs)"

definition newSet :: "'a list \<Rightarrow> 'a list" where
  \<comment> \<open>\<^verbatim>\<open>[...new Set(xs)]\<close>: first occurrences, in order\<close>
  "newSet xs = setInsertAll [] xs"

definition orEmpty :: "'a list option \<Rightarrow> 'a list" where
  \<comment> \<open>\<^verbatim>\<open>xs || []\<close> (an array, even an empty one, is truthy)\<close>
  "orEmpty xs = (case xs of None \<Rightarrow> [] | Some ys \<Rightarrow> ys)"

definition nonEmpty :: "'a list option \<Rightarrow> bool" where
  \<comment> \<open>\<^verbatim>\<open>xs && xs.length > 0\<close>\<close>
  "nonEmpty xs = (case xs of None \<Rightarrow> False | Some ys \<Rightarrow> ys \<noteq> [])"

text \<open>
  \<^verbatim>\<open>sidebarFilters\<close> is the request's \<^verbatim>\<open>filters\<close>, which the request may omit
  (\<open>None\<close>): the spread \<^verbatim>\<open>{ ...undefined }\<close> is the empty object, and reading
  \<^verbatim>\<open>sidebarFilters.brands\<close> of \<^verbatim>\<open>undefined\<close> throws a \<^verbatim>\<open>TypeError\<close>. The sources of the
  query are written to the property \<^verbatim>\<open>source\<close>, the one \<^verbatim>\<open>FilterState\<close> uses
  (field \<open>sources\<close> of \<open>Filters\<close>).
\<close>

definition emptyFilters :: Filters where
  "emptyFilters = \<lparr>priceRange = None, categories = None, brands = None, sources = None\<rparr>"

definition mergeFilters :: "Filters option \<Rightarrow> ParsedQuery \<Rightarrow> error + Filters" where
  "mergeFilters sidebarFilters parsedFilters =
     (let merged = (case sidebarFilters of None \<Rightarrow> emptyFilters | Some f \<Rightarrow> f);
          merged1 = (case pq_priceRange parsedFilters of
                       Some r \<Rightarrow> merged\<lparr>priceRange := Some r\<rparr>
                     | None \<Rightarrow> merged)
      in case (if nonEmpty (pq_brands parsedFilters)
               then (case sidebarFilters of
                       None \<Rightarrow> Inl TypeError
                     | Some sidebar \<Rightarrow>
                         Inr (merged1\<lparr>brands :=
                                Some (newSet (orEmpty (brands sidebar)
                                              @ orEmpty (pq_brands parsedFilters)))\<rparr>))
               else Inr merged1) of
           Inl e \<Rightarrow> Inl e
         | Inr merged2 \<Rightarrow>
             (case (if nonEmpty (pq_categories parsedFilters)
                    then (case sidebarFilters of
                            None \<Rightarrow> Inl TypeError
                          | Some sidebar \<Rightarrow>
                              Inr (merged2\<lparr>categories :=
                                     Some (newSet (orEmpty (categories sidebar)
                                                   @ orEmpty (pq_categories parsedFilters)))\<rparr>))
                    else Inr merged2) of
                Inl e \<Rightarrow> Inl e
              | Inr merged3 \<Rightarrow>
                  Inr (if nonEmpty (pq_sources parsedFilters)
                       then merged3\<lparr>sources := pq_sources parsedFilters\<rparr>
                       else merged3)))"

subsection \<open>Relevance Retriever (\<^verbatim>\<open>searchProducts\<close>)\<close>

text \<open>
  What the index returns for a match: an id, an optional score and the metadata object,
  every property of which may be missing.
\<close>

record Metadata =
  meta_name :: "string option"
  meta_price_min :: "int option"
  meta_price_max :: "int option"
  meta_brand :: "string option"
  meta_category :: "string option"
  meta_source :: "string option"
  meta_url :: "string option"
  meta_image :: "string option"
  meta_processor :: "string option"
  meta_ram :: "string option"
  meta_storage :: "string option"
  meta_graphics :: "string option"
  meta_warranty :: "string option"
  meta_availability :: "string option"
  meta_rating :: "rat option"
  meta_reviews_count :: "int option"

record Match =
  match_id :: string
  score :: "rat option"
  metadata :: Metadata

record PineconeFilter =
  price_min_gte :: "int option"
  price_max_lte :: "int option"
  source_in :: "string list option"
  brand_in :: "string list option"

record 'v QueryRequest =
  namespace :: "string option"
  vector :: 'v
  topK :: nat
  includeMetadata :: bool
  queryFilter :: "PineconeFilter option"

definition RELEVANCE_THRESHOLD :: rat where
  "RELEVANCE_THRESHOLD = 1 / 2"

definition OPENAI_RELEVANCE_THRESHOLD :: rat where
  "OPENAI_RELEVANCE_THRESHOLD = 2 / 5"

definition getNamespace :: "EmbeddingModel \<Rightarrow> string option" where
  "getNamespace embeddingModel =
     (if embeddingModel = HuggingFace then Some ''huggingface'' else None)"

definition orZero :: "'a::zero option \<Rightarrow> 'a" where
  \<comment> \<open>\<^verbatim>\<open>x || 0\<close>\<close>
  "orZero x = (case x of None \<Rightarrow> 0 | Some v \<Rightarrow> v)"

definition orString :: "string \<Rightarrow> string option \<Rightarrow> string" where
  \<comment> \<open>\<^verbatim>\<open>x || d\<close> on strings: the empty string is falsy\<close>
  "orString d x = (case x of None \<Rightarrow> d | Some v \<Rightarrow> if v = [] then d else v)"

definition orUndefinedStr :: "string option \<Rightarrow> string option" where
  \<comment> \<open>\<^verbatim>\<open>x || undefined\<close> on strings\<close>
  "orUndefinedStr x = (case x of None \<Rightarrow> None | Some v \<Rightarrow> if v = [] then None else Some v)"

definition orUndefinedNum :: "'a::zero option \<Rightarrow> 'a option" where
  \<comment> \<open>\<^verbatim>\<open>x || undefined\<close> on numbers\<close>
  "orUndefinedNum x = (case x of None \<Rightarrow> None | Some v \<Rightarrow> if v = 0 then None else Some v)"

definition toProduct :: "Match \<Rightarrow> Product" where
  "toProduct m =
     (let meta = metadata m in
      \<lparr>product_id = match_id m,
       name = orString [] (meta_name meta),
       price_min = orZero (meta_price_min meta),
       price_max = orZero (meta_price_max meta),
       brand = orString [] (meta_brand meta),
       category = orString [] (meta_category meta),
       source = orString ''StarTech'' (meta_source meta),
       url = orString [] (meta_url meta),
       image_url = orString [] (meta_image meta),
       specs = \<lparr>processor = orUndefinedStr (meta_processor meta),
                ram = orUndefinedStr (meta_ram meta),
                storage = orUndefinedStr (meta_storage meta),
                graphics = orUndefinedStr (meta_graphics meta)\<rparr>,
       warranty = orString [] (meta_warranty meta),
       availability = orUndefinedStr (meta_availability meta),
       rating = orUndefinedNum (meta_rating meta),
       reviews_count = orUndefinedNum (meta_reviews_count meta)\<rparr>)"

definition buildPineconeFilter :: "Filters \<Rightarrow> PineconeFilter" where
  "buildPineconeFilter filters =
     \<lparr>price_min_gte =
        (case priceRange filters of
           Some (minPrice, maxPrice) \<Rightarrow> if minPrice > 0 then Some minPrice else None
         | None \<Rightarrow> None),
      price_max_lte =
        (case priceRange filters of
           Some (minPrice, maxPrice) \<Rightarrow> if maxPrice < 200000 then Some maxPrice else None
         | None \<Rightarrow> None),
      source_in = (if nonEmpty (sources filters) then sources filters else None),
      brand_in = (if nonEmpty (brands filters) then brands filters else None)\<rparr>"

definition isEmptyFilter :: "PineconeFilter \<Rightarrow> bool" where
  \<comment> \<open>\<^verbatim>\<open>Object.keys(pineconeFilter).length > 0\<close> is false\<close>
  "isEmptyFilter f =
     (price_min_gte f = None \<and> price_max_lte f = None \<and> source_in f = None \<and> brand_in f = None)"

definition searchRequest ::
  "'v \<Rightarrow> Filters \<Rightarrow> nat \<Rightarrow> EmbeddingModel \<Rightarrow> 'v QueryRequest" where
  "searchRequest queryEmbedding filters k embeddingModel =
     (let pineconeFilter = buildPineconeFilter filters;
          fetchCount = (if nonEmpty (categories filters) then k * 2 else k)
      in \<lparr>namespace = getNamespace embeddingModel,
          vector = queryEmbedding,
          topK = fetchCount,
          includeMetadata = True,
          queryFilter = (if isEmptyFilter pineconeFilter then None else Some pineconeFilter)\<rparr>)"

text \<open>
  \<open>index\<close> is the similarity index: \<open>None\<close> when the query throws. The comparator
  \<^verbatim>\<open>(a, b) => a.price_min - b.price_min\<close> of \<^verbatim>\<open>Array.prototype.sort\<close> (a stable sort)
  is \<open>sort_key price_min\<close>, the stable insertion sort; \<^verbatim>\<open>slice(0, topK)\<close> is \<open>take\<close>.
\<close>

definition searchProducts ::
  "('v QueryRequest \<Rightarrow> Match list option) \<Rightarrow> 'v \<Rightarrow> Filters \<Rightarrow> nat \<Rightarrow> EmbeddingModel
     \<Rightarrow> error + Product list" where
  "searchProducts index queryEmbedding filters k embeddingModel =
     (case index (searchRequest queryEmbedding filters k embeddingModel) of
        None \<Rightarrow> Inl VectorSearchFailed
      | Some matches \<Rightarrow>
          let threshold = (if embeddingModel = HuggingFace
                           then RELEVANCE_THRESHOLD else OPENAI_RELEVANCE_THRESHOLD);
              relevantMatches = filter (\<lambda>m. orZero (score m) \<ge> threshold) matches;
              products0 = map toProduct relevantMatches;
              products1 =
                (if nonEmpty (categories filters)
                 then filter (\<lambda>p. some (\<lambda>cat. includesStr (toLowerCase (category p))
                                                        (toLowerCase cat))
                                         (orEmpty (categories filters)))
                             products0
                 else products0);
              products2 =
                (case priceRange filters of
                   Some (minPrice, maxPrice) \<Rightarrow>
                     filter (\<lambda>p. price_min p \<ge> minPrice \<and> price_max p \<le> maxPrice) products1
                 | None \<Rightarrow> products1);
              products3 =
                (if (case priceRange filters of
                       Some (minPrice, maxPrice) \<Rightarrow> maxPrice < 200000
                     | None \<Rightarrow> False)
                 then sort_key price_min products2
                 else products2)
          in Inr (take k products3))"

subsection \<open>Context Router (\<^verbatim>\<open>isCasualMessage\<close>, \<^verbatim>\<open>shouldUseConversationHistory\<close>)\<close>

function splitSpaces :: "string \<Rightarrow> string list" where
  \<comment> \<open>\<^verbatim>\<open>s.split(/\s+/)\<close>: the pieces between maximal runs of whitespace, empty ones included\<close>
  "splitSpaces [] = [[]]"
| "splitSpaces (c # cs) =
     (if isSpace c then [] # splitSpaces (dropWhile isSpace cs)
      else (case splitSpaces cs of w # ws \<Rightarrow> (c # w) # ws | [] \<Rightarrow> [[c]]))"
  by pat_completeness auto
termination
  by (relation "measure length") (auto simp: le_imp_less_Suc length_dropWhile_le)

definition taka :: string where
  \<comment> \<open>the taka sign U+09F3, in UTF-8\<close>
  "taka = [CHR 0xE0, CHR 0xA7, CHR 0xB3]"

definition casualProductKeywords :: "string list" where
  \<comment> \<open>\<^verbatim>\<open>productKeywords\<close> of \<^verbatim>\<open>isCasualMessage\<close>\<close>
  "casualProductKeywords =
     [''laptop'', ''desktop'', ''pc'', ''computer'', ''phone'', ''mobile'', ''tablet'',
      ''monitor'', ''keyboard'', ''mouse'', ''headphone'', ''camera'', ''printer'',
      ''show me'', ''find'', ''search'', ''looking for'', ''need'', ''want'', ''buy'',
      ''price'', ''taka'', taka, ''budget'', ''under'', ''above'', ''between'',
      ''gaming'', ''office'', ''work'', ''student'', ''professional'',
      ''i5'', ''i7'', ''ryzen'', ''ram'', ''ssd'', ''hdd'', ''gb'', ''tb'']"

definition greetings :: "string list" where
  "greetings = [''hi'', ''hello'', ''hey'', ''hola'', ''greetings'', ''good morning'',
                ''good afternoon'', ''good evening'']"

definition casualPhrases :: "string list" where
  "casualPhrases =
     [''how are you'', ''whats up'', ''what'' @ [CHR 0x27] @ ''s up'', ''how r u'', ''sup'']"

definition isCasualMessage :: "string \<Rightarrow> bool" where
  "isCasualMessage message =
     (let lowerMessage = trim (toLowerCase message) in
      if some (\<lambda>keyword. includesStr lowerMessage keyword) casualProductKeywords then False
      else if some (\<lambda>g. lowerMessage = g \<or> lowerMessage = g @ ''!'' \<or> lowerMessage = g @ ''?'')
                   greetings then True
      else if some (\<lambda>phrase. lowerMessage = phrase \<or> lowerMessage = phrase @ ''?'')
                   casualPhrases then True
      else if lowerMessage = ''thanks'' \<or> lowerMessage = ''thank you''
              \<or> lowerMessage = ''thanks!'' \<or> lowerMessage = ''thank you!'' then True
      else if lowerMessage = ''bye'' \<or> lowerMessage = ''goodbye''
              \<or> lowerMessage = ''bye!'' \<or> lowerMessage = ''goodbye!'' then True
      else False)"

definition historyProductKeywords :: "string list" where
  \<comment> \<open>\<^verbatim>\<open>productKeywords\<close> of \<^verbatim>\<open>shouldUseConversationHistory\<close>\<close>
  "historyProductKeywords =
     [''laptop'', ''desktop'', ''pc'', ''computer'', ''camera'', ''phone'', ''monitor'',
      ''keyboard'', ''mouse'', ''headphone'', ''speaker'', ''tablet'', ''processor'',
      ''ram'', ''ssd'', ''graphics'', ''display'']"

definition contextTriggers :: "string list" where
  "contextTriggers =
     [''which'', ''what'', ''better'', ''best'', ''recommend'', ''choose'',
      ''first'', ''second'', ''third'', ''that'', ''this'', ''them'', ''it'']"

definition followUpPhrases :: "string list" where
  "followUpPhrases =
     [''which is better'', ''which will be better'', ''which one'',
      ''tell me more'', ''more details'', ''more about'',
      ''compare them'', ''compare these'', ''difference between'',
      ''your recommendation'', ''what do you think'',
      ''the first one'', ''the second one'', ''the third one'']"

definition shouldUseConversationHistory :: "string \<Rightarrow> Message list \<Rightarrow> bool" where
  "shouldUseConversationHistory message conversationHistory =
     (if conversationHistory = [] then False
      else
        let lowerMessage = trim (toLowerCase message);
            words = splitSpaces lowerMessage;
            hasProductKeyword = some (\<lambda>k. includesStr lowerMessage k) historyProductKeywords;
            hasContextTrigger = some (\<lambda>t. includesStr lowerMessage t) contextTriggers
        in if length words \<le> 5 \<and> hasContextTrigger \<and> \<not> hasProductKeyword then True
           else if some (\<lambda>phrase. includesStr lowerMessage phrase) followUpPhrases then True
           else False)"

text \<open>
  The first two decisions of \<^verbatim>\<open>POST\<close>: the casual short-circuit, then the follow-up
  branch, which is taken only when some assistant turn of the history carried items
  (\<^verbatim>\<open>[...conversationHistory].reverse().find(...)\<close>, then \<^verbatim>\<open>previousProducts.length > 0\<close>);
  everything else falls through to the fresh pipeline.
\<close>

datatype Route = Casual | Contextual "Product list" | Fresh

definition lastAssistantMessage :: "Message list \<Rightarrow> Message option" where
  "lastAssistantMessage conversationHistory =
     find (\<lambda>m. role m = Assistant \<and> nonEmpty (products m)) (rev conversationHistory)"

definition previousProducts :: "Message list \<Rightarrow> Product list" where
  \<comment> \<open>\<^verbatim>\<open>lastAssistantMessage?.products || []\<close>\<close>
  "previousProducts conversationHistory =
     (case lastAssistantMessage conversationHistory of
        None \<Rightarrow> []
      | Some m \<Rightarrow> orEmpty (products m))"

definition route :: "string \<Rightarrow> Message list \<Rightarrow> Route" where
  "route message conversationHistory =
     (if isCasualMessage message then Casual
      else if shouldUseConversationHistory message conversationHistory
              \<and> previousProducts conversationHistory \<noteq> []
           then Contextual (previousProducts conversationHistory)
      else Fresh)"


subsection \<open>Regular expressions of the Selection Resolver\<close>

text \<open>
  The two patterns of the handler use literals, an optional character, the lazy
  \<^verbatim>\<open>[\s\S]*?\<close>, the greedy \<^verbatim>\<open>\s*\<close> and one capturing group. \<open>rxRun\<close> is the
  backtracking matcher of the language at a fixed start: alternatives are tried in the
  engine's order (a lazy star tries to stop first, a greedy one to go on first) and the
  first complete match wins. It returns the unread rest of the subject and the rests seen
  at the group's two parentheses.
\<close>

datatype rx = Lit string | OptChar char | AnyLazy | SpacesGreedy | GroupOpen | GroupClose

fun rxRun :: "rx list \<Rightarrow> string \<Rightarrow> string \<times> string \<Rightarrow> (string \<times> string \<times> string) option" where
  "rxRun [] s g = Some (s, g)"
| "rxRun (Lit l # r) s g = (if startsWith s l then rxRun r (drop (length l) s) g else None)"
| "rxRun (GroupOpen # r) s g = rxRun r s (s, snd g)"
| "rxRun (GroupClose # r) s g = rxRun r s (fst g, s)"
| "rxRun (OptChar c # r) [] g = rxRun r [] g"
| "rxRun (OptChar c # r) (x # xs) g =
     (if x = c
      then (case rxRun r xs g of Some res \<Rightarrow> Some res | None \<Rightarrow> rxRun r (x # xs) g)
      else rxRun r (x # xs) g)"
| "rxRun (AnyLazy # r) [] g = rxRun r [] g"
| "rxRun (AnyLazy # r) (x # xs) g =
     (case rxRun r (x # xs) g of Some res \<Rightarrow> Some res | None \<Rightarrow> rxRun (AnyLazy # r) xs g)"
| "rxRun (SpacesGreedy # r) [] g = rxRun r [] g"
| "rxRun (SpacesGreedy # r) (x # xs) g =
     (if isSpace x
      then (case rxRun (SpacesGreedy # r) xs g of
              Some res \<Rightarrow> Some res
            | None \<Rightarrow> rxRun r (x # xs) g)
      else rxRun r (x # xs) g)"

record RxMatch =
  rx_before :: string
  rx_matched :: string
  rx_after :: string
  rx_group :: string

definition rxAt :: "rx list \<Rightarrow> string \<Rightarrow> RxMatch option" where
  \<comment> \<open>a match that starts at the head of the subject\<close>
  "rxAt p s =
     (case rxRun p s ([], []) of
        None \<Rightarrow> None
      | Some (rest, a, b) \<Rightarrow>
          Some \<lparr>rx_before = [], rx_matched = take (length s - length rest) s, rx_after = rest,
                rx_group = take (length a - length b) a\<rparr>)"

fun rxExec :: "rx list \<Rightarrow> string \<Rightarrow> RxMatch option" where
  \<comment> \<open>\<^verbatim>\<open>s.match(p)\<close> without the \<^verbatim>\<open>g\<close> flag: the leftmost start that matches\<close>
  "rxExec p [] = rxAt p []"
| "rxExec p (c # cs) =
     (case rxAt p (c # cs) of
        Some m \<Rightarrow> Some m
      | None \<Rightarrow>
          (case rxExec p cs of
             None \<Rightarrow> None
           | Some m \<Rightarrow> Some (m\<lparr>rx_before := c # rx_before m\<rparr>)))"

definition rxReplaceEmpty :: "rx list \<Rightarrow> string \<Rightarrow> string" where
  \<comment> \<open>\<^verbatim>\<open>s.replace(p, '')\<close>: the first match is cut out\<close>
  "rxReplaceEmpty p s = (case rxExec p s of None \<Rightarrow> s | Some m \<Rightarrow> rx_before m @ rx_after m)"

definition selectionKey :: string where
  \<open>selectionKey = ''"selected_product_ids"''\<close>

definition selectionObjectRx :: "rx list" where
  \<comment> \<open>\<^verbatim>\<open>/\{[\s\S]*?"selected_product_ids"[\s\S]*?\}/\<close>\<close>
  "selectionObjectRx = [Lit ''{'', AnyLazy, Lit selectionKey, AnyLazy, Lit ''}'']"

definition codeBlockRx :: "rx list" where
  \<comment> \<open>\<^verbatim>\<open>/```json?\s*(\{[\s\S]*?"selected_product_ids"[\s\S]*?\})\s*```/\<close>\<close>
  "codeBlockRx =
     [Lit ''```jso'', OptChar CHR ''n'', SpacesGreedy, GroupOpen]
     @ selectionObjectRx @ [GroupClose, SpacesGreedy, Lit ''```'']"

subsection \<open>\<^verbatim>\<open>JSON.parse\<close>\<close>

text \<open>
  The JSON grammar of ECMA-404, as \<^verbatim>\<open>JSON.parse\<close> accepts it: a lexer that reads one
  character at a time, and a stack machine over the tokens. A number is its exact decimal
  value (JavaScript rounds a literal to the nearest double, the model does not);
  \<^verbatim>\<open>\uXXXX\<close> escapes are stored in UTF-8. An object keeps its members in source
  order (a later duplicate key wins on lookup).
\<close>

datatype json =
    JNull
  | JBool bool
  | JNum rat
  | JStr string
  | JArr "json list"
  | JObj "(string \<times> json) list"

datatype token =
    TLBrace | TRBrace | TLBracket | TRBracket | TColon | TComma
  | TString string | TNumber rat | TTrue | TFalse | TNull

datatype numPhase =
    NSign | NZero | NInt | NPoint | NFrac | NExp | NExpSign | NExpDigits

record NumAcc =
  negative :: bool
  mantissa :: nat
  fracDigits :: nat
  expNegative :: bool
  exponent :: nat

datatype lexState =
    LexStart
  | LexString string
  | LexEscape string
  | LexUnicode string "nat list"
  | LexNumber numPhase NumAcc
  | LexLiteral string token

definition isJsonSpace :: "char \<Rightarrow> bool" where
  "isJsonSpace c = (c \<in> set [CHR 0x20, CHR 0x09, CHR 0x0A, CHR 0x0D])"

definition digitOf :: "char \<Rightarrow> nat option" where
  "digitOf c =
     (let n = of_char c :: nat in if 48 \<le> n \<and> n \<le> 57 then Some (n - 48) else None)"

definition hexDigitOf :: "char \<Rightarrow> nat option" where
  "hexDigitOf c =
     (let n = of_char c :: nat in
      if 48 \<le> n \<and> n \<le> 57 then Some (n - 48)
      else if 65 \<le> n \<and> n \<le> 70 then Some (n - 55)
      else if 97 \<le> n \<and> n \<le> 102 then Some (n - 87)
      else None)"

definition utf8 :: "nat \<Rightarrow> string" where
  "utf8 cp =
     (if cp < 128 then [char_of cp]
      else if cp < 2048 then [char_of (192 + cp div 64), char_of (128 + cp mod 64)]
      else [char_of (224 + cp div 4096), char_of (128 + (cp div 64) mod 64),
            char_of (128 + cp mod 64)])"

definition numValue :: "NumAcc \<Rightarrow> rat" where
  "numValue a =
     (let m = (if negative a then - of_nat (mantissa a) else of_nat (mantissa a)) :: rat;
          scaled = m / 10 ^ fracDigits a
      in if expNegative a then scaled / 10 ^ exponent a else scaled * 10 ^ exponent a)"

definition emptyNum :: NumAcc where
  "emptyNum = \<lparr>negative = False, mantissa = 0, fracDigits = 0, expNegative = False,
               exponent = 0\<rparr>"

definition lexStart :: "char \<Rightarrow> (token list \<times> lexState) option" where
  "lexStart c =
     (if isJsonSpace c then Some ([], LexStart)
      else if c = CHR ''{'' then Some ([TLBrace], LexStart)
      else if c = CHR ''}'' then Some ([TRBrace], LexStart)
      else if c = CHR ''['' then Some ([TLBracket], LexStart)
      else if c = CHR '']'' then Some ([TRBracket], LexStart)
      else if c = CHR '':'' then Some ([TColon], LexStart)
      else if c = CHR '','' then Some ([TComma], LexStart)
      else if c = CHR 0x22 then Some ([], LexString [])
      else if c = CHR ''-'' then Some ([], LexNumber NSign (emptyNum\<lparr>negative := True\<rparr>))
      else if c = CHR ''0'' then Some ([], LexNumber NZero emptyNum)
      else if c = CHR ''t'' then Some ([], LexLiteral ''rue'' TTrue)
      else if c = CHR ''f'' then Some ([], LexLiteral ''alse'' TFalse)
      else if c = CHR ''n'' then Some ([], LexLiteral ''ull'' TNull)
      else (case digitOf c of
              Some d \<Rightarrow> Some ([], LexNumber NInt (emptyNum\<lparr>mantissa := d\<rparr>))
            | None \<Rightarrow> None))"

definition numAccepting :: "numPhase \<Rightarrow> bool" where
  "numAccepting ph = (ph = NZero \<or> ph = NInt \<or> ph = NFrac \<or> ph = NExpDigits)"

definition numStep :: "numPhase \<Rightarrow> NumAcc \<Rightarrow> char \<Rightarrow> (numPhase \<times> NumAcc) option" where
  \<comment> \<open>the next state when \<open>c\<close> continues the number\<close>
  "numStep ph a c =
     (case digitOf c of
        Some d \<Rightarrow>
          (if ph = NSign then (if d = 0 then Some (NZero, a) else Some (NInt, a\<lparr>mantissa := d\<rparr>))
           else if ph = NInt then Some (NInt, a\<lparr>mantissa := mantissa a * 10 + d\<rparr>)
           else if ph = NPoint \<or> ph = NFrac
                then Some (NFrac, a\<lparr>mantissa := mantissa a * 10 + d,
                                     fracDigits := fracDigits a + 1\<rparr>)
           else if ph = NExp \<or> ph = NExpSign \<or> ph = NExpDigits
                then Some (NExpDigits, a\<lparr>exponent := exponent a * 10 + d\<rparr>)
           else None)
      | None \<Rightarrow>
          (if c = CHR ''.'' \<and> (ph = NZero \<or> ph = NInt) then Some (NPoint, a)
           else if (c = CHR ''e'' \<or> c = CHR ''E'') \<and> (ph = NZero \<or> ph = NInt \<or> ph = NFrac)
                then Some (NExp, a)
           else if c = CHR ''+'' \<and> ph = NExp then Some (NExpSign, a)
           else if c = CHR ''-'' \<and> ph = NExp then Some (NExpSign, a\<lparr>expNegative := True\<rparr>)
           else None))"

definition unescape :: "char \<Rightarrow> char option" where
  "unescape c =
     (if c = CHR 0x22 \<or> c = CHR 0x5C \<or> c = CHR ''/'' then Some c
      else if c = CHR ''b'' then Some (CHR 0x08)
      else if c = CHR ''f'' then Some (CHR 0x0C)
      else if c = CHR ''n'' then Some (CHR 0x0A)
      else if c = CHR ''r'' then Some (CHR 0x0D)
      else if c = CHR ''t'' then Some (CHR 0x09)
      else None)"

fun lexStep :: "lexState \<Rightarrow> char \<Rightarrow> (token list \<times> lexState) option" where
  "lexStep LexStart c = lexStart c"
| "lexStep (LexString acc) c =
     (if c = CHR 0x22 then Some ([TString (rev acc)], LexStart)
      else if c = CHR 0x5C then Some ([], LexEscape acc)
      else if (of_char c :: nat) < 32 then None
      else Some ([], LexString (c # acc)))"
| "lexStep (LexEscape acc) c =
     (if c = CHR ''u'' then Some ([], LexUnicode acc [])
      else (case unescape c of
              Some e \<Rightarrow> Some ([], LexString (e # acc))
            | None \<Rightarrow> None))"
| "lexStep (LexUnicode acc hs) c =
     (case hexDigitOf c of
        None \<Rightarrow> None
      | Some h \<Rightarrow>
          (if length hs = 3
           then Some ([], LexString (rev (utf8 (foldl (\<lambda>v d. v * 16 + d) 0 (hs @ [h]))) @ acc))
           else Some ([], LexUnicode acc (hs @ [h]))))"
| "lexStep (LexNumber ph a) c =
     (case numStep ph a c of
        Some (ph', a') \<Rightarrow> Some ([], LexNumber ph' a')
      | None \<Rightarrow>
          (if numAccepting ph
           then (case lexStart c of
                   Some (ts, st) \<Rightarrow> Some (TNumber (numValue a) # ts, st)
                 | None \<Rightarrow> None)
           else None))"
| "lexStep (LexLiteral [] tok) c = None"
| "lexStep (LexLiteral (r # rs) tok) c =
     (if c \<noteq> r then None
      else if rs = [] then Some ([tok], LexStart)
      else Some ([], LexLiteral rs tok))"

fun lexEnd :: "lexState \<Rightarrow> token list option" where
  "lexEnd LexStart = Some []"
| "lexEnd (LexNumber ph a) = (if numAccepting ph then Some [TNumber (numValue a)] else None)"
| "lexEnd st = None"

fun lex :: "lexState \<Rightarrow> string \<Rightarrow> token list option" where
  "lex st [] = lexEnd st"
| "lex st (c # cs) =
     (case lexStep st c of
        None \<Rightarrow> None
      | Some (ts, st') \<Rightarrow> (case lex st' cs of None \<Rightarrow> None | Some ts' \<Rightarrow> Some (ts @ ts')))"

datatype frame = ArrFrame "json list" | ObjFrame "(string \<times> json) list" "string option"

datatype parseMode =
    NeedValue | NeedValueOrEnd | NeedKeyOrEnd | NeedKey | NeedColon | AfterValue
  | Finished json

fun pushValue :: "json \<Rightarrow> frame list \<Rightarrow> (parseMode \<times> frame list) option" where
  "pushValue v [] = Some (Finished v, [])"
| "pushValue v (ArrFrame xs # st) = Some (AfterValue, ArrFrame (v # xs) # st)"
| "pushValue v (ObjFrame kvs (Some k) # st) = Some (AfterValue, ObjFrame ((k, v) # kvs) None # st)"
| "pushValue v (ObjFrame kvs None # st) = None"

fun scalarOf :: "token \<Rightarrow> json option" where
  "scalarOf (TString s) = Some (JStr s)"
| "scalarOf (TNumber n) = Some (JNum n)"
| "scalarOf TTrue = Some (JBool True)"
| "scalarOf TFalse = Some (JBool False)"
| "scalarOf TNull = Some JNull"
| "scalarOf t = None"

definition startValue :: "token \<Rightarrow> frame list \<Rightarrow> (parseMode \<times> frame list) option" where
  "startValue t st =
     (if t = TLBracket then Some (NeedValueOrEnd, ArrFrame [] # st)
      else if t = TLBrace then Some (NeedKeyOrEnd, ObjFrame [] None # st)
      else (case scalarOf t of Some v \<Rightarrow> pushValue v st | None \<Rightarrow> None))"

definition closeArray :: "frame list \<Rightarrow> (parseMode \<times> frame list) option" where
  "closeArray st =
     (case st of ArrFrame xs # rest \<Rightarrow> pushValue (JArr (rev xs)) rest | _ \<Rightarrow> None)"

definition closeObject :: "frame list \<Rightarrow> (parseMode \<times> frame list) option" where
  "closeObject st =
     (case st of ObjFrame kvs None # rest \<Rightarrow> pushValue (JObj (rev kvs)) rest | _ \<Rightarrow> None)"

definition takeKey :: "token \<Rightarrow> frame list \<Rightarrow> (parseMode \<times> frame list) option" where
  "takeKey t st =
     (case (t, st) of
        (TString k, ObjFrame kvs None # rest) \<Rightarrow> Some (NeedColon, ObjFrame kvs (Some k) # rest)
      | _ \<Rightarrow> None)"

fun parseStep :: "parseMode \<Rightarrow> frame list \<Rightarrow> token \<Rightarrow> (parseMode \<times> frame list) option" where
  "parseStep NeedValue st t = startValue t st"
| "parseStep NeedValueOrEnd st t = (if t = TRBracket then closeArray st else startValue t st)"
| "parseStep NeedKeyOrEnd st t = (if t = TRBrace then closeObject st else takeKey t st)"
| "parseStep NeedKey st t = takeKey t st"
| "parseStep NeedColon st t = (if t = TColon then Some (NeedValue, st) else None)"
| "parseStep AfterValue st t =
     (if t = TComma
      then (case st of
              ArrFrame xs # rest \<Rightarrow> Some (NeedValue, st)
            | ObjFrame kvs k # rest \<Rightarrow> Some (NeedKey, st)
            | [] \<Rightarrow> None)
      else if t = TRBracket then closeArray st
      else if t = TRBrace then closeObject st
      else None)"
| "parseStep (Finished v) st t = None"

fun parseTokens :: "parseMode \<Rightarrow> frame list \<Rightarrow> token list \<Rightarrow> json option" where
  "parseTokens (Finished v) st [] = Some v"
| "parseTokens m st [] = None"
| "parseTokens m st (t # ts) =
     (case parseStep m st t of None \<Rightarrow> None | Some (m', st') \<Rightarrow> parseTokens m' st' ts)"

definition JSON_parse :: "string \<Rightarrow> json option" where
  \<comment> \<open>\<open>None\<close>: \<^verbatim>\<open>JSON.parse\<close> throws a \<^verbatim>\<open>SyntaxError\<close>\<close>
  "JSON_parse s =
     (case lex LexStart s of None \<Rightarrow> None | Some ts \<Rightarrow> parseTokens NeedValue [] ts)"


subsection \<open>Selection Resolver (steps 5 and 6 of \<^verbatim>\<open>POST\<close>)\<close>

text \<open>
  \<^verbatim>\<open>selectedProductIds\<close> is declared \<^verbatim>\<open>number[]\<close> and filled from
  \<^verbatim>\<open>selectionData.selected_product_ids || []\<close>, where \<^verbatim>\<open>selectionData\<close> is whatever
  \<^verbatim>\<open>JSON.parse\<close> returned. \<open>Ids\<close> holds the value when it has the declared type (an
  array of numbers; a missing or falsy value gives the empty array); \<open>Other\<close> holds any
  other truthy JSON value, on which step 6 runs with JavaScript's coercions.
\<close>

datatype Selection = Ids "rat list" | Other json

definition getProperty :: "(string \<times> json) list \<Rightarrow> string \<Rightarrow> json option" where
  "getProperty kvs k = map_of (rev kvs) k"

fun numbersOf :: "json list \<Rightarrow> rat list option" where
  "numbersOf [] = Some []"
| "numbersOf (JNum n # xs) = (case numbersOf xs of None \<Rightarrow> None | Some ns \<Rightarrow> Some (n # ns))"
| "numbersOf (x # xs) = None"

fun orEmptyIds :: "json option \<Rightarrow> Selection" where
  \<comment> \<open>\<^verbatim>\<open>v || []\<close>: \<^verbatim>\<open>undefined\<close>, \<^verbatim>\<open>null\<close>, \<^verbatim>\<open>false\<close>, \<^verbatim>\<open>0\<close> and \<^verbatim>\<open>""\<close> are falsy\<close>
  "orEmptyIds None = Ids []"
| "orEmptyIds (Some JNull) = Ids []"
| "orEmptyIds (Some (JBool b)) = (if b then Other (JBool b) else Ids [])"
| "orEmptyIds (Some (JNum n)) = (if n = 0 then Ids [] else Other (JNum n))"
| "orEmptyIds (Some (JStr s)) = (if s = [] then Ids [] else Other (JStr s))"
| "orEmptyIds (Some (JArr xs)) =
     (case numbersOf xs of None \<Rightarrow> Other (JArr xs) | Some ns \<Rightarrow> Ids ns)"
| "orEmptyIds (Some (JObj kvs)) = Other (JObj kvs)"

fun selectedProductIdsOf :: "json \<Rightarrow> error + Selection" where
  \<comment> \<open>reading a property of \<^verbatim>\<open>null\<close> throws; a primitive or an array has no such property\<close>
  "selectedProductIdsOf JNull = Inl TypeError"
| "selectedProductIdsOf (JObj kvs) = Inr (orEmptyIds (getProperty kvs ''selected_product_ids''))"
| "selectedProductIdsOf v = Inr (Ids [])"

definition jsonMatch :: "string \<Rightarrow> string option" where
  "jsonMatch raw =
     (case rxExec selectionObjectRx raw of
        Some m \<Rightarrow> Some (rx_matched m)
      | None \<Rightarrow>
          (case rxExec codeBlockRx raw of
             Some codeBlockMatch \<Rightarrow> Some (rx_group codeBlockMatch)
           | None \<Rightarrow> None))"

definition stripSelection :: "string \<Rightarrow> string" where
  "stripSelection raw =
     trim (rxReplaceEmpty codeBlockRx (rxReplaceEmpty selectionObjectRx raw))"

definition parseSelection :: "string \<Rightarrow> Selection \<times> string" where
  \<comment> \<open>step 5: \<open>(selectedProductIds, cleanedContent)\<close>; an exception in the \<^verbatim>\<open>try\<close> block
      leaves both at their initial values\<close>
  "parseSelection raw =
     (case jsonMatch raw of
        None \<Rightarrow> (Ids [], raw)
      | Some m \<Rightarrow>
          (case JSON_parse m of
             None \<Rightarrow> (Ids [], raw)
           | Some selectionData \<Rightarrow>
               (case selectedProductIdsOf selectionData of
                  Inl e \<Rightarrow> (Ids [], raw)
                | Inr selectedProductIds \<Rightarrow> (selectedProductIds, stripSelection raw))))"

definition productAt :: "Product list \<Rightarrow> rat \<Rightarrow> Product option" where
  \<comment> \<open>\<^verbatim>\<open>products[i]\<close>: \<^verbatim>\<open>undefined\<close> unless \<open>i\<close> is an index of the array\<close>
  "productAt ps i =
     (if of_int \<lfloor>i\<rfloor> = i \<and> 0 \<le> i \<and> nat \<lfloor>i\<rfloor> < length ps then Some (ps ! nat \<lfloor>i\<rfloor>) else None)"

definition selectProducts :: "Product list \<Rightarrow> rat list \<Rightarrow> Product list" where
  \<comment> \<open>\<^verbatim>\<open>ids.map(id => products[id - 1]).filter(Boolean)\<close>\<close>
  "selectProducts ps ids = List.map_filter (\<lambda>id. productAt ps (id - 1)) ids"

definition productSliceCount :: "ParsedQuery \<Rightarrow> nat" where
  "productSliceCount parsedQuery =
     (case pq_intent parsedQuery of
        None \<Rightarrow> 5
      | Some i \<Rightarrow>
          if productCount i = Single then 1
          else if productCount i = Comparison then 3
          else if productCount i = Multiple then 5
          else 5)"

text \<open>
  Step 6 on a value outside the declared type. \<^verbatim>\<open>id - 1\<close> converts \<^verbatim>\<open>id\<close> to a
  number: \<^verbatim>\<open>null\<close> is \<open>0\<close>, a boolean \<open>0\<close> or \<open>1\<close>, a string what
  \<^verbatim>\<open>StringToNumber\<close> reads in it, an array what its \<^verbatim>\<open>join(",")\<close> reads as a string,
  an object \<^verbatim>\<open>NaN\<close>; the conversion throws a \<^verbatim>\<open>TypeError\<close> when it meets an object
  whose own property \<^verbatim>\<open>toString\<close> hides the inherited method (a JSON value is never
  callable). \<^verbatim>\<open>v.length > 0\<close> is false on a number or boolean, and \<^verbatim>\<open>v.map\<close> is not a
  function unless \<open>v\<close> is an array. Numbers are exact here too: no rounding to a
  double.
\<close>

datatype jsnumber = Finite rat | NaN | PosInfinity | NegInfinity

datatype decPhase = DSign | DStart | DInt | DPoint | DFrac | DExp | DExpSign | DExpDigits

definition decStep :: "decPhase \<Rightarrow> NumAcc \<Rightarrow> char \<Rightarrow> (decPhase \<times> NumAcc) option" where
  \<comment> \<open>\<^verbatim>\<open>StrDecimalLiteral\<close>: leading zeros, \<^verbatim>\<open>+\<close>, \<^verbatim>\<open>1.\<close> and \<^verbatim>\<open>.5\<close> are allowed\<close>
  "decStep ph a c =
     (case digitOf c of
        Some d \<Rightarrow>
          (if ph = DSign \<or> ph = DStart \<or> ph = DInt
           then Some (DInt, a\<lparr>mantissa := mantissa a * 10 + d\<rparr>)
           else if ph = DPoint \<or> ph = DFrac
           then Some (DFrac, a\<lparr>mantissa := mantissa a * 10 + d, fracDigits := fracDigits a + 1\<rparr>)
           else Some (DExpDigits, a\<lparr>exponent := exponent a * 10 + d\<rparr>))
      | None \<Rightarrow>
          (if c = CHR ''+'' \<and> ph = DSign then Some (DStart, a)
           else if c = CHR ''-'' \<and> ph = DSign then Some (DStart, a\<lparr>negative := True\<rparr>)
           else if c = CHR ''.'' \<and> (ph = DSign \<or> ph = DStart) then Some (DPoint, a)
           else if c = CHR ''.'' \<and> ph = DInt then Some (DFrac, a)
           else if (c = CHR ''e'' \<or> c = CHR ''E'') \<and> (ph = DInt \<or> ph = DFrac) then Some (DExp, a)
           else if c = CHR ''+'' \<and> ph = DExp then Some (DExpSign, a)
           else if c = CHR ''-'' \<and> ph = DExp then Some (DExpSign, a\<lparr>expNegative := True\<rparr>)
           else None))"

fun strDecimal :: "decPhase \<Rightarrow> NumAcc \<Rightarrow> string \<Rightarrow> rat option" where
  "strDecimal ph a [] =
     (if ph = DInt \<or> ph = DFrac \<or> ph = DExpDigits then Some (numValue a) else None)"
| "strDecimal ph a (c # cs) =
     (case decStep ph a c of None \<Rightarrow> None | Some (ph', a') \<Rightarrow> strDecimal ph' a' cs)"

fun digitsBase :: "nat \<Rightarrow> nat \<Rightarrow> string \<Rightarrow> nat option" where
  "digitsBase base acc [] = Some acc"
| "digitsBase base acc (c # cs) =
     (case hexDigitOf c of
        None \<Rightarrow> None
      | Some d \<Rightarrow> if d < base then digitsBase base (acc * base + d) cs else None)"

fun nonDecimalLiteral :: "string \<Rightarrow> nat option" where
  \<comment> \<open>\<^verbatim>\<open>0x\<close>, \<^verbatim>\<open>0o\<close> and \<^verbatim>\<open>0b\<close> literals, which take no sign\<close>
  "nonDecimalLiteral (z # x # d # ds) =
     (if z \<noteq> CHR ''0'' then None
      else if x = CHR ''x'' \<or> x = CHR ''X'' then digitsBase 16 0 (d # ds)
      else if x = CHR ''o'' \<or> x = CHR ''O'' then digitsBase 8 0 (d # ds)
      else if x = CHR ''b'' \<or> x = CHR ''B'' then digitsBase 2 0 (d # ds)
      else None)"
| "nonDecimalLiteral t = None"

definition stringToNumber :: "string \<Rightarrow> jsnumber" where
  "stringToNumber s =
     (let t = trim s in
      if t = [] then Finite 0
      else if t = ''Infinity'' \<or> t = ''+Infinity'' then PosInfinity
      else if t = ''-Infinity'' then NegInfinity
      else (case nonDecimalLiteral t of
              Some n \<Rightarrow> Finite (of_nat n)
            | None \<Rightarrow>
                (case strDecimal DSign emptyNum t of
                   Some q \<Rightarrow> Finite q
                 | None \<Rightarrow> NaN)))"

fun throwsToString :: "json \<Rightarrow> bool" where
  "throwsToString (JObj kvs) = (''toString'' \<in> set (map fst kvs))"
| "throwsToString (JArr xs) = (\<exists>x \<in> set xs. throwsToString x)"
| "throwsToString v = False"

fun stringNumber :: "json \<Rightarrow> jsnumber" where
  \<comment> \<open>the number read in the string of a value, as \<^verbatim>\<open>join\<close> writes it (\<^verbatim>\<open>null\<close> as \<^verbatim>\<open>""\<close>)\<close>
  "stringNumber JNull = Finite 0"
| "stringNumber (JBool b) = NaN"
| "stringNumber (JNum n) = Finite n"
| "stringNumber (JStr s) = stringToNumber s"
| "stringNumber (JObj kvs) = NaN"
| "stringNumber (JArr []) = Finite 0"
| "stringNumber (JArr [x]) = stringNumber x"
| "stringNumber (JArr (x # y # zs)) = NaN"

definition toNumber :: "json \<Rightarrow> error + jsnumber" where
  "toNumber v =
     (if throwsToString v then Inl TypeError
      else Inr (case v of JBool b \<Rightarrow> Finite (if b then 1 else 0) | _ \<Rightarrow> stringNumber v))"

definition referencedItem :: "Product list \<Rightarrow> json \<Rightarrow> error + Product option" where
  \<comment> \<open>\<^verbatim>\<open>products[id - 1]\<close>\<close>
  "referencedItem ps x =
     (case toNumber x of
        Inl e \<Rightarrow> Inl e
      | Inr (Finite q) \<Rightarrow> Inr (productAt ps (q - 1))
      | Inr n \<Rightarrow> Inr None)"

fun referencedItems :: "Product list \<Rightarrow> json list \<Rightarrow> error + Product list" where
  \<comment> \<open>\<^verbatim>\<open>xs.map(id => products[id - 1]).filter(Boolean)\<close>\<close>
  "referencedItems ps [] = Inr []"
| "referencedItems ps (x # xs) =
     (case referencedItem ps x of
        Inl e \<Rightarrow> Inl e
      | Inr item \<Rightarrow>
          (case referencedItems ps xs of
             Inl e \<Rightarrow> Inl e
           | Inr items \<Rightarrow> Inr (case item of None \<Rightarrow> items | Some p \<Rightarrow> p # items)))"

fun isPositive :: "jsnumber \<Rightarrow> bool" where
  "isPositive (Finite q) = (q > 0)"
| "isPositive PosInfinity = True"
| "isPositive n = False"

fun lengthPositive :: "json \<Rightarrow> error + bool" where
  \<comment> \<open>\<^verbatim>\<open>v.length > 0\<close>\<close>
  "lengthPositive (JArr xs) = Inr (xs \<noteq> [])"
| "lengthPositive (JStr s) = Inr (s \<noteq> [])"
| "lengthPositive (JObj kvs) =
     (case getProperty kvs ''length'' of
        None \<Rightarrow> Inr False
      | Some l \<Rightarrow> (case toNumber l of Inl e \<Rightarrow> Inl e | Inr n \<Rightarrow> Inr (isPositive n)))"
| "lengthPositive v = Inr False"

definition displayValue :: "json \<Rightarrow> Product list \<Rightarrow> Product list \<Rightarrow> Product list option" where
  \<comment> \<open>step 6 on any value, \<open>fallback\<close> being the else branch; \<open>None\<close>: a \<^verbatim>\<open>TypeError\<close> is thrown\<close>
  "displayValue v ps fallback =
     (case lengthPositive v of
        Inl e \<Rightarrow> None
      | Inr False \<Rightarrow> Some fallback
      | Inr True \<Rightarrow>
          (case v of
             JArr xs \<Rightarrow> (case referencedItems ps xs of Inl e \<Rightarrow> None | Inr items \<Rightarrow> Some items)
           | _ \<Rightarrow> None))"

definition displayFresh :: "Selection \<Rightarrow> ParsedQuery \<Rightarrow> Product list \<Rightarrow> Product list option" where
  \<comment> \<open>step 6; \<open>None\<close>: a \<^verbatim>\<open>TypeError\<close> is thrown, which the handler's outer \<^verbatim>\<open>catch\<close> answers\<close>
  "displayFresh sel parsedQuery ps =
     (case sel of
        Other v \<Rightarrow> displayValue v ps (take (productSliceCount parsedQuery) ps)
      | Ids selectedProductIds \<Rightarrow>
          Some (if selectedProductIds \<noteq> [] then selectProducts ps selectedProductIds
                else take (productSliceCount parsedQuery) ps))"

definition displayFollowUp :: "Selection \<Rightarrow> Product list \<Rightarrow> Product list option" where
  "displayFollowUp sel prev =
     (case sel of
        Other v \<Rightarrow> displayValue v prev prev
      | Ids selectedProductIds \<Rightarrow>
          Some (if selectedProductIds \<noteq> [] then selectProducts prev selectedProductIds
                else prev))"

definition declaredList :: "Selection \<Rightarrow> json list option" where
  \<comment> \<open>the reference list a selection declares, when it is a list\<close>
  "declaredList sel =
     (case sel of
        Ids ns \<Rightarrow> Some (map JNum ns)
      | Other (JArr xs) \<Rightarrow> Some xs
      | Other v \<Rightarrow> None)"

definition resolveFresh ::
  "string \<Rightarrow> ParsedQuery \<Rightarrow> Product list \<Rightarrow> Product list option \<times> string" where
  \<comment> \<open>steps 5 and 6 on the generator's raw output: \<open>(displayProducts, cleanedContent)\<close>\<close>
  "resolveFresh raw parsedQuery ps =
     (case parseSelection raw of
        (selectedProductIds, cleanedContent) \<Rightarrow>
          (displayFresh selectedProductIds parsedQuery ps, cleanedContent))"

definition resolveFollowUp :: "string \<Rightarrow> Product list \<Rightarrow> Product list option \<times> string" where
  \<comment> \<open>the same two steps on the follow-up branch\<close>
  "resolveFollowUp raw prev =
     (case parseSelection raw of
        (selectedProductIds, cleanedContent) \<Rightarrow>
          (displayFollowUp selectedProductIds prev, cleanedContent))"

text \<open>
  The claims speak of positional references that are in range: \<open>i\<close> is a valid
  reference into \<open>ps\<close> when it is a whole number between \<open>1\<close> and the length of
  \<open>ps\<close>. \<open>validReference\<close> says so in the claims' words, to be compared with what
  \<^verbatim>\<open>products[id - 1]\<close> does.
\<close>

definition validReference :: "Product list \<Rightarrow> rat \<Rightarrow> bool" where
  "validReference ps i = (of_int \<lfloor>i\<rfloor> = i \<and> 1 \<le> i \<and> i \<le> of_nat (length ps))"

subsection \<open>The handler \<^verbatim>\<open>POST\<close>\<close>

record LLMResponse =
  llm_content :: string
  llm_provider :: string
  llm_model :: string
  llm_tokensUsed :: "nat option"

text \<open>
  The prompt handed to the generator is text built by \<^verbatim>\<open>buildContext\<close> and
  \<^verbatim>\<open>formatConversationHistory\<close> from the items, the intent and the history; the generator
  of the model is a function of those.
\<close>

datatype PromptContext =
    FreshContext "Product list" "Intent option" "Message list"
  | FollowUpContext "Product list" "Message list"

record 'v Env =
  env_parseQuery :: "string \<Rightarrow> ParsedQuery option"
  env_generateEmbedding :: "string \<Rightarrow> EmbeddingModel \<Rightarrow> 'v option"
  env_index :: "'v QueryRequest \<Rightarrow> Match list option"
  env_queryLLM :: "string \<Rightarrow> PromptContext \<Rightarrow> LLMProvider \<Rightarrow> LLMResponse option"
  env_toLocaleString :: "rat \<Rightarrow> string"
  env_random :: nat

record Request =
  req_message :: string
  req_provider :: "LLMProvider option"
  req_embeddingModel :: "EmbeddingModel option"
  req_filters :: "Filters option"
  req_conversationHistory :: "Message list"

record ResponseMetadata =
  rm_provider :: string
  rm_model :: string
  rm_productsFound :: nat
  rm_tokensUsed :: "nat option"

record ChatResponse =
  resp_message :: Message
  resp_metadata :: ResponseMetadata

datatype HttpResult =
    Json200 ChatResponse
  | JsonError nat string

datatype Call = CallParseQuery | CallGenerateEmbedding | CallSearchProducts | CallQueryLLM

definition newline :: string where
  "newline = [CHR 0x0A]"

definition bullet :: string where
  \<comment> \<open>U+2022 and a space\<close>
  "bullet = [CHR 0xE2, CHR 0x80, CHR 0xA2, CHR 0x20]"

definition apostrophe :: string where
  "apostrophe = [CHR 0x27]"

definition systemResponse :: "string \<Rightarrow> string \<Rightarrow> HttpResult" where
  "systemResponse responseContent modelName =
     Json200 \<lparr>resp_message = \<lparr>role = Assistant, content = responseContent, products = Some []\<rparr>,
              resp_metadata = \<lparr>rm_provider = ''system'', rm_model = modelName,
                               rm_productsFound = 0, rm_tokensUsed = None\<rparr>\<rparr>"

definition llmAnswer :: "LLMResponse \<Rightarrow> string \<Rightarrow> Product list \<Rightarrow> nat \<Rightarrow> HttpResult" where
  "llmAnswer llmResponse cleanedContent displayProducts found =
     Json200 \<lparr>resp_message = \<lparr>role = Assistant, content = cleanedContent,
                              products = Some displayProducts\<rparr>,
              resp_metadata = \<lparr>rm_provider = llm_provider llmResponse,
                               rm_model = llm_model llmResponse,
                               rm_productsFound = found,
                               rm_tokensUsed = llm_tokensUsed llmResponse\<rparr>\<rparr>"

definition casualResponses :: "string list" where
  "casualResponses =
     [''Hello! I'' @ apostrophe @ ''m here to help you find the best tech products from StarTech and Daraz. What are you looking for today?'',
      ''Hi there! Looking for laptops, desktops, or any specific tech products? I can help you compare prices and specs.'',
      ''Hey! Ready to help you find great deals on tech products. What would you like to search for?'']"

definition casualResponse :: "'v Env \<Rightarrow> string \<Rightarrow> HttpResult" where
  \<comment> \<open>\<open>env_random\<close> stands for \<^verbatim>\<open>Math.floor(Math.random() * 3)\<close>\<close>
  "casualResponse env message =
     systemResponse
       (if includesStr (toLowerCase message) ''thank''
        then ''You'' @ apostrophe @ ''re welcome! Let me know if you need help finding any other products.''
        else casualResponses ! (env_random env mod 3))
       ''casual-response''"

definition followUp ::
  "'v Env \<Rightarrow> string \<Rightarrow> LLMProvider \<Rightarrow> Message list \<Rightarrow> Product list \<Rightarrow> HttpResult \<times> Call list" where
  "followUp env message provider conversationHistory prev =
     (case env_queryLLM env message (FollowUpContext prev conversationHistory) provider of
        None \<Rightarrow> (JsonError 500 ''Failed to generate response'', [CallQueryLLM])
      | Some llmResponse \<Rightarrow>
          (case resolveFollowUp (llm_content llmResponse) prev of
             (None, cleanedContent) \<Rightarrow>
               (JsonError 500 ''Failed to generate response'', [CallQueryLLM])
           | (Some displayProducts, cleanedContent) \<Rightarrow>
               (llmAnswer llmResponse cleanedContent displayProducts (length displayProducts),
                [CallQueryLLM])))"

definition isLookingForCompleteSystem :: "string \<Rightarrow> bool" where
  "isLookingForCompleteSystem userQuery =
     (includesStr userQuery ''laptop'' \<or> includesStr userQuery ''desktop''
      \<or> includesStr userQuery ''pc'' \<or> includesStr userQuery ''computer'')"

definition isLookingForAccessories :: "string \<Rightarrow> bool" where
  "isLookingForAccessories userQuery =
     (includesStr userQuery ''keyboard'' \<or> includesStr userQuery ''mouse''
      \<or> includesStr userQuery ''cable'' \<or> includesStr userQuery ''accessory''
      \<or> includesStr userQuery ''part'')"

definition unrealisticBudget :: "string \<Rightarrow> int \<Rightarrow> bool" where
  \<comment> \<open>the guard of the early return\<close>
  "unrealisticBudget userQuery maxPrice =
     (isLookingForCompleteSystem userQuery \<and> \<not> isLookingForAccessories userQuery
      \<and> maxPrice > 0 \<and> maxPrice < 25000)"

definition minRealisticPrice :: "string \<Rightarrow> int" where
  "minRealisticPrice productType = (if productType = ''desktop'' then 35000 else 30000)"

definition productTypeOf :: "string \<Rightarrow> string" where
  "productTypeOf userQuery =
     (if includesStr userQuery ''desktop'' \<or> includesStr userQuery ''pc''
      then ''desktop'' else ''laptop'')"

definition unrealisticBudgetMessage :: "'v Env \<Rightarrow> string \<Rightarrow> int \<Rightarrow> string" where
  "unrealisticBudgetMessage env userQuery maxPrice =
     (let productType = productTypeOf userQuery;
          fmt = (\<lambda>n. env_toLocaleString env (of_int n))
      in ''Unfortunately, complete '' @ productType @ ''s aren'' @ apostrophe
           @ ''t available under '' @ fmt maxPrice @ taka @ ''. ''
         @ newline @ newline
           @ ''At this price point, only accessories and parts (keyboards, displays, mice) are available. ''
         @ newline @ newline @ ''Would you like to see:'' @ newline
         @ bullet @ ''Budget '' @ productType @ ''s starting from ''
           @ fmt (minRealisticPrice productType) @ taka @ ''?'' @ newline
         @ bullet @ ''Used/refurbished '' @ productType
           @ ''s (may have options in higher ranges)?'' @ newline
         @ bullet @ ''Accessories and parts in your '' @ fmt maxPrice @ taka @ '' budget?'')"

definition noResultsMessage :: "'v Env \<Rightarrow> int \<Rightarrow> int \<Rightarrow> string" where
  "noResultsMessage env minPrice maxPrice =
     (let fmt = env_toLocaleString env in
      ''I couldn'' @ apostrophe @ ''t find any products matching your exact criteria. ''
      @ (if maxPrice < 200000 \<and> maxPrice > 0
         then newline @ newline @ ''No products found in the '' @ fmt (of_int minPrice) @ taka
                @ '' to '' @ fmt (of_int maxPrice) @ taka @ '' range. ''
              @ (if maxPrice < 10000
                 then newline @ newline
                        @ ''At this price point, only accessories and parts are available. Would you like to see:''
                        @ newline
                      @ bullet @ ''Computer accessories (keyboards, mice, cables)?'' @ newline
                      @ bullet @ ''Budget options starting from '' @ fmt (of_int (maxPrice * 3))
                        @ taka @ ''?'' @ newline
                      @ bullet @ ''Used/refurbished products in higher ranges?''
                 else if maxPrice < 30000
                 then newline @ newline
                        @ ''Complete laptops typically start from 30,000'' @ taka
                        @ ''. Would you like to see:'' @ newline
                      @ bullet @ ''Budget laptops starting from 30,000-35,000'' @ taka @ ''?''
                        @ newline
                      @ bullet @ ''Tablets or Chromebooks in your range?'' @ newline
                      @ bullet @ ''Used/refurbished options?''
                 else newline @ newline @ ''Would you like me to:'' @ newline
                      @ bullet @ ''Show products in the '' @ fmt (of_int maxPrice * (6 / 5)) @ taka
                        @ '' range (20% above budget)?'' @ newline
                      @ bullet @ ''Search for alternative brands or categories?'' @ newline
                      @ bullet @ ''Look for used/refurbished options in your range?'')
         else if minPrice > 0
         then newline @ newline @ ''Your minimum price is '' @ fmt (of_int minPrice) @ taka
                @ ''. ''
              @ ''Would you like me to show lower-priced options as well?''
         else newline @ newline @ ''Try:'' @ newline
              @ bullet @ ''Adjusting your filters (price range, brand, category)'' @ newline
              @ bullet @ ''Rephrasing your question with different keywords'' @ newline
              @ bullet @ ''Asking about a different product category''))"

definition emptyParsedQuery :: ParsedQuery where
  "emptyParsedQuery =
     \<lparr>pq_priceRange = None, pq_brands = None, pq_categories = None, pq_sources = None,
      pq_specs = None, pq_intent = None\<rparr>"

definition generate ::
  "'v Env \<Rightarrow> string \<Rightarrow> LLMProvider \<Rightarrow> Message list \<Rightarrow> ParsedQuery \<Rightarrow> Product list \<Rightarrow> Call list
     \<Rightarrow> HttpResult \<times> Call list" where
  \<comment> \<open>steps 3 to 6, for a non-empty candidate list\<close>
  "generate env message provider conversationHistory parsedQuery ps calls =
     (case env_queryLLM env message
             (FreshContext ps (pq_intent parsedQuery) conversationHistory) provider of
        None \<Rightarrow> (JsonError 500 ''Failed to generate response'', calls @ [CallQueryLLM])
      | Some llmResponse \<Rightarrow>
          (case resolveFresh (llm_content llmResponse) parsedQuery ps of
             (None, cleanedContent) \<Rightarrow>
               (JsonError 500 ''Internal server error'', calls @ [CallQueryLLM])
           | (Some displayProducts, cleanedContent) \<Rightarrow>
               (llmAnswer llmResponse cleanedContent displayProducts (length ps),
                calls @ [CallQueryLLM])))"

definition retrieve ::
  "'v Env \<Rightarrow> string \<Rightarrow> LLMProvider \<Rightarrow> EmbeddingModel \<Rightarrow> Message list \<Rightarrow> ParsedQuery \<Rightarrow> Filters
     \<Rightarrow> HttpResult \<times> Call list" where
  \<comment> \<open>steps 1 and 2, then the no-results answer or the generation\<close>
  "retrieve env message provider embeddingModel conversationHistory parsedQuery mergedFilters =
     (case env_generateEmbedding env message embeddingModel of
        None \<Rightarrow>
          (JsonError 500 ''Failed to generate embedding'', [CallParseQuery, CallGenerateEmbedding])
      | Some queryEmbedding \<Rightarrow>
          (case searchProducts (env_index env) queryEmbedding mergedFilters 8 embeddingModel of
             Inl e \<Rightarrow>
               (JsonError 500 ''Failed to search products'',
                [CallParseQuery, CallGenerateEmbedding, CallSearchProducts])
           | Inr ps \<Rightarrow>
               (case (case priceRange mergedFilters of None \<Rightarrow> (0, 200000) | Some r \<Rightarrow> r) of
                  (minPrice, maxPrice) \<Rightarrow>
                    if ps = []
                    then (systemResponse (noResultsMessage env minPrice maxPrice) ''no-results'',
                          [CallParseQuery, CallGenerateEmbedding, CallSearchProducts])
                    else generate env message provider conversationHistory parsedQuery ps
                           [CallParseQuery, CallGenerateEmbedding, CallSearchProducts])))"

definition fresh ::
  "'v Env \<Rightarrow> string \<Rightarrow> LLMProvider \<Rightarrow> EmbeddingModel \<Rightarrow> Filters option \<Rightarrow> Message list
     \<Rightarrow> HttpResult \<times> Call list" where
  \<comment> \<open>step 0, the merge, and the budget guard before any embedding or search\<close>
  "fresh env message provider embeddingModel filters conversationHistory =
     (let parsedQuery = (case env_parseQuery env message of
                           None \<Rightarrow> emptyParsedQuery
                         | Some pq \<Rightarrow> pq)
      in case mergeFilters filters parsedQuery of
           Inl e \<Rightarrow> (JsonError 500 ''Internal server error'', [CallParseQuery])
         | Inr mergedFilters \<Rightarrow>
             (case (case priceRange mergedFilters of None \<Rightarrow> (0, 200000) | Some r \<Rightarrow> r) of
                (minPrice, maxPrice) \<Rightarrow>
                  let userQuery = toLowerCase message
                  in if unrealisticBudget userQuery maxPrice
                     then (systemResponse (unrealisticBudgetMessage env userQuery maxPrice)
                             ''unrealistic-budget'',
                           [CallParseQuery])
                     else retrieve env message provider embeddingModel conversationHistory
                            parsedQuery mergedFilters))"

definition POST :: "'v Env \<Rightarrow> Request \<Rightarrow> HttpResult \<times> Call list" where
  "POST env req =
     (let message = req_message req;
          provider = (case req_provider req of None \<Rightarrow> ProviderGemini | Some p \<Rightarrow> p);
          embeddingModel = (case req_embeddingModel req of None \<Rightarrow> OpenAI | Some m \<Rightarrow> m);
          filters = req_filters req;
          conversationHistory = req_conversationHistory req
      in if message = [] then (JsonError 400 ''Message is required'', [])
         else (case route message conversationHistory of
                 Casual \<Rightarrow> (casualResponse env message, [])
               | Contextual prev \<Rightarrow> followUp env message provider conversationHistory prev
               | Fresh \<Rightarrow>
                   fresh env message provider embeddingModel filters conversationHistory))"


text \<open>What a client reads off a response: the items to display and the narrative.\<close>

fun displayItems :: "HttpResult \<Rightarrow> Product list option" where
  "displayItems (Json200 r) = products (resp_message r)"
| "displayItems r = None"

fun narrative :: "HttpResult \<Rightarrow> string option" where
  "narrative (Json200 r) = Some (content (resp_message r))"
| "narrative r = None"

subsection \<open>Fixtures\<close>

definition mkMatch :: "string \<Rightarrow> rat \<Rightarrow> string \<Rightarrow> int \<Rightarrow> int \<Rightarrow> Match" where
  "mkMatch i sc cat lo hi =
     \<lparr>match_id = i, score = Some sc,
      metadata = \<lparr>meta_name = Some i, meta_price_min = Some lo, meta_price_max = Some hi,
                  meta_brand = Some ''Acme'', meta_category = Some cat,
                  meta_source = Some ''Daraz'', meta_url = None, meta_image = None,
                  meta_processor = None, meta_ram = None, meta_storage = None,
                  meta_graphics = None, meta_warranty = None, meta_availability = None,
                  meta_rating = None, meta_reviews_count = None\<rparr>\<rparr>"

definition fixtureMatches :: "Match list" where
  "fixtureMatches =
     [mkMatch ''a'' (9 / 10) ''Laptop/Gaming'' 20000 45000,
      mkMatch ''b'' (4 / 5) ''Laptop/Office'' 38000 39000,
      mkMatch ''c'' (7 / 10) ''Laptop/Office'' 30000 32000,
      mkMatch ''d'' (1 / 10) ''Accessories'' 10000 10000]"

definition fixtureIndex :: "unit QueryRequest \<Rightarrow> Match list option" where
  "fixtureIndex req = Some fixtureMatches"

definition fixtureFilters :: "(int \<times> int) option \<Rightarrow> Filters" where
  "fixtureFilters r = \<lparr>priceRange = r, categories = Some [], brands = Some [], sources = Some []\<rparr>"

definition fixtureSidebar :: Filters where
  "fixtureSidebar =
     \<lparr>priceRange = Some (0, 200000), categories = Some [''laptop''],
      brands = Some [''HP'', ''Dell''], sources = Some [''StarTech'']\<rparr>"

definition fixtureCriteria :: ParsedQuery where
  "fixtureCriteria =
     \<lparr>pq_priceRange = Some (0, 100000), pq_brands = Some [''Dell'', ''Asus''],
      pq_categories = None, pq_sources = Some [''Daraz''], pq_specs = None,
      pq_intent = None\<rparr>"

definition fixtureProducts :: "Product list" where
  \<comment> \<open>five candidates, \<open>c1\<close> to \<open>c5\<close>\<close>
  "fixtureProducts =
     map toProduct
       [mkMatch ''c1'' (9 / 10) ''Laptop'' 30000 32000,
        mkMatch ''c2'' (8 / 10) ''Laptop'' 35000 36000,
        mkMatch ''c3'' (7 / 10) ''Laptop'' 38000 39000,
        mkMatch ''c4'' (6 / 10) ''Laptop'' 40000 41000,
        mkMatch ''c5'' (5 / 10) ''Laptop'' 45000 47000]"

definition fixtureHistory :: "Message list" where
  "fixtureHistory =
     [\<lparr>role = User, content = ''show me laptops'', products = None\<rparr>,
      \<lparr>role = Assistant, content = ''Here are two laptops.'',
       products = Some (take 2 fixtureProducts)\<rparr>,
      \<lparr>role = User, content = ''ok'', products = None\<rparr>]"


definition fixtureLocale :: "rat \<Rightarrow> string" where
  \<comment> \<open>a test double for \<^verbatim>\<open>toLocaleString\<close> that knows the amounts the fixtures use\<close>
  "fixtureLocale q =
     (if q = 15000 then ''15,000'' else if q = 30000 then ''30,000''
      else if q = 35000 then ''35,000'' else ''0'')"

definition fixtureReply :: "string \<Rightarrow> LLMResponse" where
  "fixtureReply raw =
     \<lparr>llm_content = raw, llm_provider = ''gemini'', llm_model = ''gemini-2.5-flash'',
      llm_tokensUsed = None\<rparr>"

definition fixtureEnv :: "string \<Rightarrow> unit Env" where
  \<comment> \<open>test doubles: the interpreter fails, the generator answers \<open>raw\<close>\<close>
  "fixtureEnv raw =
     \<lparr>env_parseQuery = (\<lambda>q. None),
      env_generateEmbedding = (\<lambda>q m. Some ()),
      env_index = fixtureIndex,
      env_queryLLM = (\<lambda>q c p. Some (fixtureReply raw)),
      env_toLocaleString = fixtureLocale,
      env_random = 0\<rparr>"

definition fixtureRequest :: "string \<Rightarrow> Message list \<Rightarrow> Request" where
  \<comment> \<open>a request whose sidebar filter caps the price at 15000\<close>
  "fixtureRequest q h =
     \<lparr>req_message = q, req_provider = None, req_embeddingModel = None,
      req_filters = Some (fixtureFilters (Some (0, 15000))),
      req_conversationHistory = h\<rparr>"


definition selectionText :: "string \<Rightarrow> string" where
  \<comment> \<open>the selection object the generator is told to end with, around the array text \<open>ids\<close>\<close>
  \<open>selectionText ids = ''{"selected_product_ids": '' @ ids @ ''}''\<close>

definition quoted :: "string \<Rightarrow> string" where
  \<comment> \<open>a JSON string literal without escapes\<close>
  "quoted t = CHR 0x22 # t @ [CHR 0x22]"

definition fixtureComparison :: ParsedQuery where
  "fixtureComparison = emptyParsedQuery\<lparr>pq_intent := Some \<lparr>productCount = Comparison, action = Compare\<rparr>\<rparr>"

definition fixtureRequestCapped :: "int \<Rightarrow> string \<Rightarrow> Message list \<Rightarrow> Request" where
  \<comment> \<open>a request whose sidebar filter caps the price at \<open>cap\<close>\<close>
  "fixtureRequestCapped cap q h =
     \<lparr>req_message = q, req_provider = None, req_embeddingModel = None,
      req_filters = Some (fixtureFilters (Some (0, cap))),
      req_conversationHistory = h\<rparr>"

definition fixtureBudgetEnv :: "string \<Rightarrow> unit Env" where
  \<comment> \<open>as \<open>fixtureEnv\<close>, over an index that holds one item priced from 26000 to 26500\<close>
  "fixtureBudgetEnv raw =
     (fixtureEnv raw)\<lparr>env_index := (\<lambda>req. Some [mkMatch ''e'' (9 / 10) ''Laptop'' 26000 26500])\<rparr>"

definition fixtureSingle :: ParsedQuery where
  "fixtureSingle = emptyParsedQuery\<lparr>pq_intent := Some \<lparr>productCount = Single, action = Find\<rparr>\<rparr>"

subsection \<open>Auxiliary facts\<close>

lemma set_setInsertAll: "set (setInsertAll seen xs) = set seen \<union> set xs"
  by (induction xs arbitrary: seen) auto

lemma distinct_setInsertAll: "distinct seen \<Longrightarrow> distinct (setInsertAll seen xs)"
  by (induction xs arbitrary: seen) auto

lemma set_newSet: "set (newSet xs) = set xs"
  by (simp add: newSet_def set_setInsertAll)

lemma distinct_newSet: "distinct (newSet xs)"
  by (simp add: newSet_def distinct_setInsertAll)

lemma subseq_take_self: "subseq (take n xs) xs"
proof -
  have "subseq (take n xs) (take n xs @ drop n xs)"
    by (rule list_emb_prefix) simp
  then show ?thesis by simp
qed

lemma some_iff: "some P xs \<longleftrightarrow> (\<exists>x \<in> set xs. P x)"
  by (induction xs) auto

lemma startsWith_iff: "startsWith s k \<longleftrightarrow> (\<exists>q. s = k @ q)"
  by (induction s k rule: startsWith.induct) auto

lemma includesStr_iff: "includesStr s k \<longleftrightarrow> (\<exists>p q. s = p @ k @ q)"
proof (induction s)
  case Nil
  then show ?case by auto
next
  case (Cons c cs)
  show ?case
  proof
    assume "includesStr (c # cs) k"
    then consider "startsWith (c # cs) k" | "includesStr cs k" by auto
    then show "\<exists>p q. c # cs = p @ k @ q"
    proof cases
      case 1
      then obtain q where "c # cs = k @ q" by (auto simp: startsWith_iff)
      then have "c # cs = [] @ k @ q" by simp
      then show ?thesis by blast
    next
      case 2
      then obtain p q where "cs = p @ k @ q" using Cons.IH by blast
      then have "c # cs = (c # p) @ k @ q" by simp
      then show ?thesis by blast
    qed
  next
    assume "\<exists>p q. c # cs = p @ k @ q"
    then obtain p q where pq: "c # cs = p @ k @ q" by blast
    show "includesStr (c # cs) k"
    proof (cases p)
      case Nil
      then have "startsWith (c # cs) k" using pq by (auto simp: startsWith_iff)
      then show ?thesis by simp
    next
      case (Cons a p')
      then have "cs = p' @ k @ q" using pq by simp
      then have "includesStr cs k" using Cons.IH by blast
      then show ?thesis by simp
    qed
  qed
qed

lemma dropWhile_keeps_block:
  assumes "k \<noteq> []" "\<not> P (hd k)"
  shows "\<exists>p'. dropWhile P (p @ k @ q) = p' @ k @ q"
proof (cases "\<forall>x \<in> set p. P x")
  case True
  then have "dropWhile P (p @ k @ q) = dropWhile P (k @ q)"
    by (simp add: dropWhile_append2)
  also have "\<dots> = k @ q" using assms by (cases k) auto
  finally have "dropWhile P (p @ k @ q) = [] @ k @ q" by simp
  then show ?thesis by blast
next
  case False
  then obtain x where "x \<in> set p" "\<not> P x" by blast
  then have "dropWhile P (p @ k @ q) = dropWhile P p @ k @ q"
    by (simp add: dropWhile_append1)
  then show ?thesis by blast
qed

lemma includesStr_trim:
  assumes "includesStr s k" "k \<noteq> []" "\<not> isSpace (hd k)" "\<not> isSpace (last k)"
  shows "includesStr (trim s) k"
proof -
  obtain p q where "s = p @ k @ q" using assms(1) by (auto simp: includesStr_iff)
  then obtain p' where l: "dropWhile isSpace s = p' @ k @ q"
    using dropWhile_keeps_block[of k isSpace p q] assms(2,3) by blast
  have "rev k \<noteq> []" "\<not> isSpace (hd (rev k))"
    using assms(2,4) by (simp_all add: hd_rev)
  then obtain q' where "dropWhile isSpace (rev q @ rev k @ rev p') = q' @ rev k @ rev p'"
    using dropWhile_keeps_block[of "rev k" isSpace "rev q" "rev p'"] by blast
  then have "trim s = p' @ k @ rev q'"
    by (simp add: trim_def l)
  then show ?thesis by (auto simp: includesStr_iff)
qed

lemma casualProductKeywords_shape:
  "\<forall>k \<in> set casualProductKeywords. k \<noteq> [] \<and> \<not> isSpace (hd k) \<and> \<not> isSpace (last k)"
  by (simp add: casualProductKeywords_def taka_def isSpace_def)

lemma keyword_not_casual:
  assumes "k \<in> set casualProductKeywords" "includesStr (toLowerCase message) k"
  shows "\<not> isCasualMessage message"
proof -
  have "includesStr (trim (toLowerCase message)) k"
    using assms casualProductKeywords_shape by (intro includesStr_trim) auto
  then have "some (\<lambda>keyword. includesStr (trim (toLowerCase message)) keyword) casualProductKeywords"
    using assms(1) by (auto simp: some_iff)
  then show ?thesis by (simp add: isCasualMessage_def Let_def)
qed

lemmas string_eval =
  trim_def toLowerCase_def lowerChar_def isSpace_def

lemma hello_casual: "isCasualMessage ''hello''"
  by (simp add: isCasualMessage_def string_eval casualProductKeywords_def taka_def greetings_def)

lemma which_not_casual: "\<not> isCasualMessage ''which one is better''"
  by (simp add: isCasualMessage_def string_eval casualProductKeywords_def taka_def greetings_def casualPhrases_def)

lemma which_uses_history:
  "shouldUseConversationHistory ''which one is better'' h \<longleftrightarrow> h \<noteq> []"
  by (simp add: shouldUseConversationHistory_def string_eval historyProductKeywords_def
        contextTriggers_def followUpPhrases_def)

lemma find_skip: "\<forall>x \<in> set xs. \<not> P x \<Longrightarrow> find P (xs @ ys) = find P ys"
  by (induction xs) auto

lemma previousProducts_last:
  assumes "role m = Assistant" "products m = Some items" "items \<noteq> []"
    and "\<forall>x \<in> set newer. \<not> (role x = Assistant \<and> nonEmpty (products x))"
  shows "previousProducts (older @ [m] @ (newer :: Message list)) = items"
proof -
  have "find (\<lambda>m. role m = Assistant \<and> nonEmpty (products m)) (rev newer @ m # rev older) = Some m"
    using assms by (subst find_skip) (auto simp: nonEmpty_def)
  then show ?thesis
    using assms(2) by (simp add: previousProducts_def lastAssistantMessage_def orEmpty_def)
qed

lemma includesStr_middle: "includesStr (p @ k @ q) k"
  unfolding includesStr_iff by blast

lemma empty_not_complete_system: "\<not> isLookingForCompleteSystem (toLowerCase [])"
  by (simp add: isLookingForCompleteSystem_def toLowerCase_def)

lemma unrealisticBudgetMessage_floor:
  "includesStr (unrealisticBudgetMessage env userQuery maxPrice)
     (''Budget '' @ productTypeOf userQuery @ ''s starting from ''
      @ env_toLocaleString env (of_int (minRealisticPrice (productTypeOf userQuery))) @ taka)"
proof -
  have "unrealisticBudgetMessage env userQuery maxPrice =
          (''Unfortunately, complete '' @ productTypeOf userQuery @ ''s aren'' @ apostrophe
             @ ''t available under '' @ env_toLocaleString env (of_int maxPrice) @ taka @ ''. ''
           @ newline @ newline
             @ ''At this price point, only accessories and parts (keyboards, displays, mice) are available. ''
           @ newline @ newline @ ''Would you like to see:'' @ newline @ bullet)
          @ (''Budget '' @ productTypeOf userQuery @ ''s starting from ''
             @ env_toLocaleString env (of_int (minRealisticPrice (productTypeOf userQuery))) @ taka)
          @ (''?'' @ newline
             @ bullet @ ''Used/refurbished '' @ productTypeOf userQuery
             @ ''s (may have options in higher ranges)?'' @ newline
             @ bullet @ ''Accessories and parts in your '' @ env_toLocaleString env (of_int maxPrice)
             @ taka @ '' budget?'')"
    by (simp add: unrealisticBudgetMessage_def Let_def)
  then show ?thesis
    using includesStr_middle by metis
qed

lemma budget_offer_by_query:
  "''Budget '' @ productTypeOf userQuery @ ''s starting from ''
     @ fmt (of_int (minRealisticPrice (productTypeOf userQuery))) @ taka
   = (if includesStr userQuery ''desktop'' \<or> includesStr userQuery ''pc''
      then ''Budget desktops starting from '' @ fmt 35000 @ taka
      else ''Budget laptops starting from '' @ fmt 30000 @ taka)"
  by (simp add: productTypeOf_def minRealisticPrice_def)

lemmas post_eval =
  POST_def route_def isCasualMessage_def shouldUseConversationHistory_def string_eval
  casualProductKeywords_def taka_def greetings_def casualPhrases_def
  historyProductKeywords_def contextTriggers_def followUpPhrases_def
  previousProducts_def lastAssistantMessage_def nonEmpty_def orEmpty_def

lemma startsWith_take: "startsWith s l \<Longrightarrow> s = l @ drop (length l) s"
  by (auto simp: startsWith_iff)

lemma rxRun_consumes:
  "rxRun p s g = Some (rest, g') \<Longrightarrow>
     \<exists>consumed. s = consumed @ rest \<and> (\<forall>l. Lit l \<in> set p \<longrightarrow> set l \<subseteq> set consumed)"
proof (induction p s g arbitrary: rest g' rule: rxRun.induct)
  case (1 s g)
  then show ?case by simp
next
  case (2 l r s g)
  from "2.prems" have sw: "startsWith s l" and run: "rxRun r (drop (length l) s) g = Some (rest, g')"
    by (auto split: if_splits)
  from "2.IH"[OF sw run] obtain c where c: "drop (length l) s = c @ rest"
    "\<forall>l'. Lit l' \<in> set r \<longrightarrow> set l' \<subseteq> set c" by blast
  have "s = (l @ c) @ rest" using startsWith_take[OF sw] c(1) by simp
  moreover have "\<forall>l'. Lit l' \<in> set (Lit l # r) \<longrightarrow> set l' \<subseteq> set (l @ c)"
    using c(2) by auto
  ultimately show ?case by blast
next
  case (3 r s g)
  then show ?case by simp
next
  case (4 r s g)
  then show ?case by simp
next
  case (5 c r g)
  then show ?case by simp
next
  case (6 c r x xs g)
  consider (a) "x = c" "rxRun r xs g = Some (rest, g')"
    | (b) "x = c" "rxRun r xs g = None" "rxRun r (x # xs) g = Some (rest, g')"
    | (c) "x \<noteq> c" "rxRun r (x # xs) g = Some (rest, g')"
    using "6.prems" by (cases "x = c"; cases "rxRun r xs g") auto
  then show ?case
  proof cases
    case a
    from "6.IH"(1)[OF a] obtain cs where "xs = cs @ rest"
      "\<forall>l. Lit l \<in> set r \<longrightarrow> set l \<subseteq> set cs" by blast
    then have "x # xs = (x # cs) @ rest
               \<and> (\<forall>l. Lit l \<in> set (OptChar c # r) \<longrightarrow> set l \<subseteq> set (x # cs))"
      by auto
    then show ?thesis by blast
  next
    case b
    from "6.IH"(2)[OF b] show ?thesis by auto
  next
    case c
    from "6.IH"(3)[OF c] show ?thesis by auto
  qed
next
  case (7 r g)
  then show ?case by simp
next
  case (8 r x xs g)
  show ?case
  proof (cases "rxRun r (x # xs) g")
    case (Some a)
    then have run: "rxRun r (x # xs) g = Some (rest, g')" using "8.prems" by simp
    from "8.IH"(1)[OF run] show ?thesis by auto
  next
    case None
    then have run: "rxRun (AnyLazy # r) xs g = Some (rest, g')" using "8.prems" by simp
    from "8.IH"(2)[OF None run] obtain cs where "xs = cs @ rest"
      "\<forall>l. Lit l \<in> set (AnyLazy # r) \<longrightarrow> set l \<subseteq> set cs" by blast
    then have "x # xs = (x # cs) @ rest \<and> (\<forall>l. Lit l \<in> set (AnyLazy # r) \<longrightarrow> set l \<subseteq> set (x # cs))"
      by auto
    then show ?thesis by blast
  qed
next
  case (9 r g)
  then show ?case by simp
next
  case (10 r x xs g)
  consider (a) "isSpace x" "rxRun (SpacesGreedy # r) xs g = Some (rest, g')"
    | (b) "isSpace x" "rxRun (SpacesGreedy # r) xs g = None" "rxRun r (x # xs) g = Some (rest, g')"
    | (c) "\<not> isSpace x" "rxRun r (x # xs) g = Some (rest, g')"
    using "10.prems" by (cases "isSpace x"; cases "rxRun (SpacesGreedy # r) xs g") auto
  then show ?case
  proof cases
    case a
    from "10.IH"(1)[OF a] obtain cs where "xs = cs @ rest"
      "\<forall>l. Lit l \<in> set (SpacesGreedy # r) \<longrightarrow> set l \<subseteq> set cs" by blast
    then have "x # xs = (x # cs) @ rest
               \<and> (\<forall>l. Lit l \<in> set (SpacesGreedy # r) \<longrightarrow> set l \<subseteq> set (x # cs))"
      by auto
    then show ?thesis by blast
  next
    case b
    from "10.IH"(2)[OF b] show ?thesis by auto
  next
    case c
    from "10.IH"(3)[OF c] show ?thesis by auto
  qed
qed

lemma rxAt_needs_literal:
  assumes "Lit l \<in> set p" "\<not> set l \<subseteq> set s"
  shows "rxAt p s = None"
proof (cases "rxRun p s ([], [])")
  case None
  then show ?thesis by (simp add: rxAt_def)
next
  case (Some res)
  obtain rest g' where "res = (rest, g')" by (cases res) auto
  with Some have "rxRun p s ([], []) = Some (rest, g')" by simp
  from rxRun_consumes[OF this] obtain consumed where
    "s = consumed @ rest" "\<forall>l. Lit l \<in> set p \<longrightarrow> set l \<subseteq> set consumed" by blast
  then have "set l \<subseteq> set s" using assms(1) by auto
  then show ?thesis using assms(2) by simp
qed

lemma rxExec_needs_literal:
  assumes "Lit l \<in> set p" "\<not> set l \<subseteq> set s"
  shows "rxExec p s = None"
  using assms(2)
proof (induction s)
  case Nil
  then show ?case using rxAt_needs_literal[OF assms(1)] by simp
next
  case (Cons c cs)
  have "rxAt p (c # cs) = None" using rxAt_needs_literal[OF assms(1) Cons.prems] .
  moreover have "\<not> set l \<subseteq> set cs" using Cons.prems by auto
  then have "rxExec p cs = None" using Cons.IH by simp
  ultimately show ?case by simp
qed

lemma no_brace_no_codeBlock: "CHR ''{'' \<notin> set s \<Longrightarrow> rxExec codeBlockRx s = None"
  by (rule rxExec_needs_literal[of "''{''"]) (simp_all add: codeBlockRx_def selectionObjectRx_def)

lemma rxAt_selection_head: "CHR ''{'' \<noteq> c \<Longrightarrow> rxAt selectionObjectRx (c # cs) = None"
  by (simp add: rxAt_def selectionObjectRx_def)

lemma rxExec_selection_skip:
  assumes "CHR ''{'' \<notin> set pre" "rxAt selectionObjectRx s = Some m"
  shows "rxExec selectionObjectRx (pre @ s) = Some (m\<lparr>rx_before := pre @ rx_before m\<rparr>)"
  using assms(1)
proof (induction pre)
  case Nil
  then show ?case using assms(2) by (cases s) auto
next
  case (Cons c pre)
  then show ?case by (simp add: rxAt_selection_head)
qed

lemma set_trim: "set (trim s) \<subseteq> set s"
proof
  fix x assume "x \<in> set (trim s)"
  then have "x \<in> set (dropWhile isSpace (rev (dropWhile isSpace s)))"
    unfolding trim_def set_rev .
  then have "x \<in> set (rev (dropWhile isSpace s))" by (rule set_dropWhileD)
  then have "x \<in> set (dropWhile isSpace s)" by simp
  then show "x \<in> set s" by (rule set_dropWhileD)
qed

lemma validReference_int:
  "validReference ps (of_int n) \<longleftrightarrow> 1 \<le> n \<and> n \<le> int (length ps)"
proof -
  have "(of_int n :: rat) \<le> of_nat (length ps) \<longleftrightarrow> n \<le> int (length ps)"
  proof -
    have "(of_nat (length ps) :: rat) = of_int (int (length ps))" by simp
    then show ?thesis by (simp only: of_int_le_iff)
  qed
  then show ?thesis by (simp add: validReference_def)
qed

lemma productAt_int:
  "productAt ps (of_int n - 1) =
     (if 1 \<le> n \<and> n \<le> int (length ps) then Some (ps ! (nat n - 1)) else None)"
proof (cases "1 \<le> n \<and> n \<le> int (length ps)")
  case True
  then have "nat (n - 1) < length ps" "nat (n - 1) = nat n - 1" by auto
  then show ?thesis using True by (simp add: productAt_def)
next
  case False
  then have "\<not> ((0::rat) \<le> of_int n - 1 \<and> nat (n - 1) < length ps)" by auto
  then show ?thesis using False by (simp add: productAt_def)
qed

lemma productAt_pred:
  "productAt ps (i - 1) = (if validReference ps i then Some (ps ! (nat \<lfloor>i\<rfloor> - 1)) else None)"
proof (cases "of_int \<lfloor>i\<rfloor> = i")
  case True
  define n where "n = \<lfloor>i\<rfloor>"
  have n: "i = of_int n" unfolding n_def using True[symmetric] .
  show ?thesis unfolding n by (simp add: productAt_int validReference_int)
next
  case False
  then have "of_int \<lfloor>i - 1\<rfloor> \<noteq> i - 1" by simp
  then show ?thesis using False by (simp add: productAt_def validReference_def)
qed

lemma selectProducts_eq:
  "selectProducts ps ids = map (\<lambda>i. ps ! (nat \<lfloor>i\<rfloor> - 1)) (filter (validReference ps) ids)"
  by (induction ids) (simp_all add: selectProducts_def List.map_filter_simps productAt_pred)

lemma validReference_index: "validReference ps i \<Longrightarrow> nat \<lfloor>i\<rfloor> - 1 < length ps"
proof -
  assume v: "validReference ps i"
  define n where "n = \<lfloor>i\<rfloor>"
  have n: "i = of_int n" unfolding n_def using v unfolding validReference_def by (elim conjE) (rule sym)
  from v have "1 \<le> n \<and> n \<le> int (length ps)" unfolding n by (simp only: validReference_int)
  then have "nat n - 1 < length ps" by arith
  then show ?thesis by (simp add: n)
qed

lemma set_selectProducts: "set (selectProducts ps ids) \<subseteq> set ps"
  by (auto simp: selectProducts_eq dest: validReference_index)

lemma length_selectProducts: "length (selectProducts ps ids) = length (filter (validReference ps) ids)"
  by (simp add: selectProducts_eq)

lemma rxAt_before: "rxAt p s = Some m \<Longrightarrow> rx_before m = []"
  by (auto simp: rxAt_def split: option.splits prod.splits)

lemma rxAt_matched_brace:
  assumes "rxAt selectionObjectRx s = Some m"
  shows "CHR ''{'' \<in> set (rx_matched m)"
proof -
  obtain rest a b where run: "rxRun selectionObjectRx s ([], []) = Some (rest, a, b)"
    and m: "rx_matched m = take (length s - length rest) s"
    using assms by (auto simp: rxAt_def split: option.splits prod.splits)
  from rxRun_consumes[OF run] obtain consumed where
    c: "s = consumed @ rest" "\<forall>l. Lit l \<in> set selectionObjectRx \<longrightarrow> set l \<subseteq> set consumed"
    by blast
  have "rx_matched m = consumed" using m c(1) by simp
  moreover have "set ''{'' \<subseteq> set consumed" using c(2) by (simp add: selectionObjectRx_def)
  ultimately show ?thesis by simp
qed

lemma parseSelection_object:
  assumes nb: "CHR ''{'' \<notin> set pre"
    and at: "rxAt selectionObjectRx obj = Some m" "rx_matched m = obj" "rx_after m = []"
    and parse: "JSON_parse obj = Some (JObj kvs)"
  shows "parseSelection (pre @ obj)
           = (orEmptyIds (getProperty kvs ''selected_product_ids''), trim pre)"
proof -
  have ex: "rxExec selectionObjectRx (pre @ obj) = Some (m\<lparr>rx_before := pre\<rparr>)"
    using rxExec_selection_skip[OF nb at(1)] rxAt_before[OF at(1)] by simp
  then have jm: "jsonMatch (pre @ obj) = Some obj"
    by (simp add: jsonMatch_def at(2))
  have "rxReplaceEmpty selectionObjectRx (pre @ obj) = pre"
    by (simp add: rxReplaceEmpty_def ex at(3))
  moreover have "rxReplaceEmpty codeBlockRx pre = pre"
    by (simp add: rxReplaceEmpty_def no_brace_no_codeBlock[OF nb])
  ultimately have "stripSelection (pre @ obj) = trim pre"
    by (simp add: stripSelection_def)
  then show ?thesis
    by (simp add: parseSelection_def jm parse)
qed

lemma selectProducts_1_3:
  "selectProducts [c1, c2, c3, c4, c5] [1, 3] = [c1, c3]"
proof -
  have "productAt [c1, c2, c3, c4, c5] (of_int 1 - 1) = Some c1"
    "productAt [c1, c2, c3, c4, c5] (of_int 3 - 1) = Some c3"
    by (simp_all only: productAt_int) simp_all
  then show ?thesis by (simp add: selectProducts_def List.map_filter_simps)
qed

lemma fallback_parse:
  assumes "jsonMatch raw = None \<or> (\<exists>m. jsonMatch raw = Some m \<and> JSON_parse m = None)"
  shows "parseSelection raw = (Ids [], raw)"
  using assms by (auto simp: parseSelection_def)

lemma productSliceCount_bounds: "1 \<le> productSliceCount pq \<and> productSliceCount pq \<le> 5"
  by (simp add: productSliceCount_def split: option.splits)

lemma referencedItem_number: "referencedItem ps (JNum n) = Inr (productAt ps (n - 1))"
  by (simp add: referencedItem_def toNumber_def)

lemma referencedItem_none_iff:
  "referencedItem ps (JNum n) = Inr None \<longleftrightarrow> \<not> validReference ps n"
  by (simp add: referencedItem_number productAt_pred)

lemma referencedItems_empty_iff:
  "referencedItems ps xs = Inr [] \<longleftrightarrow> (\<forall>x \<in> set xs. referencedItem ps x = Inr None)"
proof (induction xs)
  case Nil
  then show ?case by simp
next
  case (Cons x xs)
  show ?case
  proof (cases "referencedItem ps x")
    case (Inl e)
    then show ?thesis by simp
  next
    case (Inr item)
    show ?thesis
    proof (cases "referencedItems ps xs")
      case (Inl e)
      then have "\<not> (\<forall>y \<in> set xs. referencedItem ps y = Inr None)" using Cons.IH by simp
      then show ?thesis using Inl Inr by auto
    next
      case items: (Inr items)
      then show ?thesis using Inr Cons.IH by (cases item) auto
    qed
  qed
qed

lemma referencedItems_numbers:
  "referencedItems ps (map JNum ns) = Inr (selectProducts ps ns)"
  by (induction ns)
     (simp_all add: selectProducts_def List.map_filter_simps referencedItem_number
        split: option.splits)

lemma displayValue_numbers:
  "displayValue (JArr (map JNum ns)) ps fallback
     = Some (if ns \<noteq> [] then selectProducts ps ns else fallback)"
  by (simp add: displayValue_def referencedItems_numbers)

lemma displayValue_empty_iff:
  assumes "fallback \<noteq> []"
  shows "displayValue v ps fallback = Some [] \<longleftrightarrow>
           (\<exists>xs. v = JArr xs \<and> xs \<noteq> [] \<and> (\<forall>x \<in> set xs. referencedItem ps x = Inr None))"
proof (cases v)
  case (JArr xs)
  show ?thesis
  proof (cases "xs = []")
    case True
    then show ?thesis using JArr assms by (simp add: displayValue_def)
  next
    case False
    have "displayValue v ps fallback = Some [] \<longleftrightarrow> referencedItems ps xs = Inr []"
      using JArr False by (cases "referencedItems ps xs") (simp_all add: displayValue_def)
    then show ?thesis using JArr False by (simp add: referencedItems_empty_iff)
  qed
next
  case JNull
  then show ?thesis using assms by (simp add: displayValue_def)
next
  case (JBool b)
  then show ?thesis using assms by (simp add: displayValue_def)
next
  case (JNum n)
  then show ?thesis using assms by (simp add: displayValue_def)
next
  case (JStr t)
  then show ?thesis using assms by (cases "t = []") (simp_all add: displayValue_def)
next
  case (JObj kvs)
  then show ?thesis using assms
    by (auto simp: displayValue_def split: option.splits sum.splits bool.splits)
qed

lemma slice_nonempty: "ps \<noteq> [] \<Longrightarrow> take (productSliceCount pq) ps \<noteq> []"
  using productSliceCount_bounds[of pq] by (cases ps) auto

lemma displayFresh_empty_iff:
  assumes "ps \<noteq> []"
  shows "displayFresh sel pq ps = Some [] \<longleftrightarrow>
           (\<exists>xs. declaredList sel = Some xs \<and> xs \<noteq> []
                 \<and> (\<forall>x \<in> set xs. referencedItem ps x = Inr None))"
proof (cases sel)
  case (Ids ids)
  have "selectProducts ps ids = [] \<longleftrightarrow> (\<forall>i \<in> set ids. \<not> validReference ps i)"
    by (simp add: selectProducts_eq filter_empty_conv)
  then show ?thesis
    using Ids slice_nonempty[OF assms, of pq]
    by (auto simp: displayFresh_def declaredList_def referencedItem_none_iff)
next
  case (Other v)
  have "displayFresh sel pq ps = Some [] \<longleftrightarrow>
          (\<exists>xs. v = JArr xs \<and> xs \<noteq> [] \<and> (\<forall>x \<in> set xs. referencedItem ps x = Inr None))"
    using displayValue_empty_iff[OF slice_nonempty[OF assms, of pq], of v ps] Other
    by (simp add: displayFresh_def)
  moreover have "declaredList sel = Some xs \<longleftrightarrow> v = JArr xs" for xs
    using Other by (cases v) (auto simp: declaredList_def)
  ultimately show ?thesis by simp
qed

lemma route_empty_message: "route [] h = Fresh"
  by (simp add: post_eval)

lemma route_contextual_prior:
  "route message h = Contextual prior \<Longrightarrow> prior = previousProducts h"
  by (auto simp: route_def split: if_splits)

lemmas fixture_defs =
  fixtureIndex_def fixtureMatches_def fixtureFilters_def mkMatch_def toProduct_def
  searchProducts_def searchRequest_def orZero_def orString_def orUndefinedStr_def
  orUndefinedNum_def nonEmpty_def orEmpty_def OPENAI_RELEVANCE_THRESHOLD_def
  RELEVANCE_THRESHOLD_def Let_def

section \<open>Relevance Retriever\<close>

text \<open>
  C1. Whenever the index answers and a price filter \<open>[requestedMin, requestedMax]\<close> is
  active, \<^verbatim>\<open>searchProducts\<close> returns a list every item of which has
  \<open>price_min \<ge> requestedMin\<close> and \<open>price_max \<le> requestedMax\<close>, whatever the index sent
  back; in particular no item with the interval \<open>[20000, 45000]\<close> is returned for the
  requested interval \<open>[0, 40000]\<close>.
\<close>

theorem searchProducts_price_containment:
  assumes "index (searchRequest v f k em) = Some matches"
    and "priceRange f = Some (requestedMin, requestedMax)"
  shows "\<exists>ps. searchProducts index v f k em = Inr ps
           \<and> (\<forall>p \<in> set ps. requestedMin \<le> price_min p \<and> price_max p \<le> requestedMax)
           \<and> (requestedMin = 0 \<and> requestedMax = 40000 \<longrightarrow>
                \<not> (\<exists>p \<in> set ps. price_min p = 20000 \<and> price_max p = 45000))"
proof -
  obtain ps where ps: "searchProducts index v f k em = Inr ps"
    using assms(1) by (simp add: searchProducts_def Let_def)
  have inside: "\<forall>p \<in> set ps. requestedMin \<le> price_min p \<and> price_max p \<le> requestedMax"
    using ps assms
    by (auto simp: searchProducts_def Let_def split: if_splits dest!: in_set_takeD)
  then have "requestedMin = 0 \<and> requestedMax = 40000 \<longrightarrow>
               \<not> (\<exists>p \<in> set ps. price_min p = 20000 \<and> price_max p = 45000)"
    by fastforce
  with ps inside show ?thesis by blast
qed

theorem searchProducts_price_containment_witness:
  "fixtureIndex (searchRequest () (fixtureFilters (Some (0, 40000))) 8 OpenAI) = Some fixtureMatches
   \<and> priceRange (fixtureFilters (Some (0, 40000))) = Some (0, 40000)
   \<and> toProduct (mkMatch ''a'' (9 / 10) ''Laptop/Gaming'' 20000 45000) \<in> set (map toProduct fixtureMatches)
   \<and> (\<exists>ps. searchProducts fixtureIndex () (fixtureFilters (Some (0, 40000))) 8 OpenAI = Inr ps
         \<and> map product_id ps = [''c'', ''b'']
         \<and> (\<forall>p \<in> set ps. 0 \<le> price_min p \<and> price_max p \<le> 40000)
         \<and> \<not> (\<exists>p \<in> set ps. price_min p = 20000 \<and> price_max p = 45000))"
  using searchProducts_price_containment
          [of fixtureIndex "()" "fixtureFilters (Some (0, 40000))" 8 OpenAI fixtureMatches 0 40000]
  by (simp add: fixture_defs)

text \<open>
  C3. Whenever the index answers, the returned list has at most \<open>k\<close> (\<^verbatim>\<open>topK\<close>) elements;
  when the price filter's upper bound is below the unrestricted ceiling \<open>200000\<close> the list
  is sorted ascending by \<open>price_min\<close>; when there is no price filter, or its upper bound
  is at the ceiling or above, the list keeps the order of the index's answer (it is a
  subsequence of the answer).
\<close>

theorem searchProducts_order_and_limit:
  assumes "index (searchRequest v f k em) = Some matches"
  shows "\<exists>ps. searchProducts index v f k em = Inr ps
           \<and> length ps \<le> k
           \<and> (\<forall>lo hi. priceRange f = Some (lo, hi) \<and> hi < 200000 \<longrightarrow> sorted (map price_min ps))
           \<and> ((priceRange f = None \<or> (\<exists>lo hi. priceRange f = Some (lo, hi) \<and> 200000 \<le> hi))
                \<longrightarrow> subseq ps (map toProduct matches))"
proof -
  let ?thr = "if em = HuggingFace then RELEVANCE_THRESHOLD else OPENAI_RELEVANCE_THRESHOLD"
  let ?p0 = "map toProduct (filter (\<lambda>m. orZero (score m) \<ge> ?thr) matches)"
  have s0: "subseq ?p0 (map toProduct matches)"
    by (simp add: subseq_map)
  obtain ps where ps: "searchProducts index v f k em = Inr ps"
    using assms by (simp add: searchProducts_def Let_def)
  have len: "length ps \<le> k"
    using ps assms by (auto simp: searchProducts_def Let_def)
  have srt: "sorted (map price_min ps)" if "priceRange f = Some (lo, hi)" "hi < 200000" for lo hi
    using ps assms that
    by (auto simp: searchProducts_def Let_def take_map[symmetric] sorted_wrt_take simp del: take_map)
  have sub: "subseq ps (map toProduct matches)"
    if "priceRange f = None \<or> (\<exists>lo hi. priceRange f = Some (lo, hi) \<and> 200000 \<le> hi)"
  proof -
    have "subseq ps ?p0"
      using ps assms that
      by (auto simp: searchProducts_def Let_def split: if_splits
               intro!: subseq_order.order_trans[OF subseq_take_self])
    then show ?thesis using s0 by (rule subseq_order.order_trans)
  qed
  show ?thesis using ps len srt sub by blast
qed

theorem searchProducts_order_and_limit_witness:
  "fixtureIndex (searchRequest () (fixtureFilters (Some (0, 100000))) 2 OpenAI) = Some fixtureMatches
   \<and> (\<exists>ps. searchProducts fixtureIndex () (fixtureFilters (Some (0, 100000))) 2 OpenAI = Inr ps
         \<and> map product_id ps = [''a'', ''c'']
         \<and> length ps \<le> 2
         \<and> sorted (map price_min ps))"
  using searchProducts_order_and_limit
          [of fixtureIndex "()" "fixtureFilters (Some (0, 100000))" 2 OpenAI fixtureMatches]
  by (simp add: fixture_defs)

section \<open>Filter Merger\<close>

text \<open>
  C2. For every filter state and every interpreted criteria, \<^verbatim>\<open>mergeFilters\<close> returns a
  merged filter in which: the price interval is the criteria's when the criteria have one
  and the filter state's otherwise; brands and categories are the duplicate-free union of
  both inputs when the criteria supply some (a non-empty list) and the filter state's
  otherwise; the sources are the criteria's when the criteria supply some and the filter
  state's otherwise.
\<close>

theorem mergeFilters_precedence:
  "\<exists>m. mergeFilters (Some fs) pq = Inr m
     \<and> (\<forall>r. pq_priceRange pq = Some r \<longrightarrow> priceRange m = Some r)
     \<and> (pq_priceRange pq = None \<longrightarrow> priceRange m = priceRange fs)
     \<and> (nonEmpty (pq_brands pq) \<longrightarrow>
          (\<exists>bs. brands m = Some bs \<and> distinct bs
                \<and> set bs = set (orEmpty (brands fs)) \<union> set (orEmpty (pq_brands pq))))
     \<and> (\<not> nonEmpty (pq_brands pq) \<longrightarrow> brands m = brands fs)
     \<and> (nonEmpty (pq_categories pq) \<longrightarrow>
          (\<exists>cs. categories m = Some cs \<and> distinct cs
                \<and> set cs = set (orEmpty (categories fs)) \<union> set (orEmpty (pq_categories pq))))
     \<and> (\<not> nonEmpty (pq_categories pq) \<longrightarrow> categories m = categories fs)
     \<and> (nonEmpty (pq_sources pq) \<longrightarrow> sources m = pq_sources pq)
     \<and> (\<not> nonEmpty (pq_sources pq) \<longrightarrow> sources m = sources fs)"
  by (auto simp: mergeFilters_def Let_def set_newSet distinct_newSet split: option.splits)

theorem mergeFilters_precedence_witness:
  "pq_priceRange fixtureCriteria = Some (0, 100000)
   \<and> nonEmpty (pq_brands fixtureCriteria)
   \<and> \<not> nonEmpty (pq_categories fixtureCriteria)
   \<and> nonEmpty (pq_sources fixtureCriteria)
   \<and> mergeFilters (Some fixtureSidebar) fixtureCriteria =
       Inr \<lparr>priceRange = Some (0, 100000), categories = Some [''laptop''],
            brands = Some [''HP'', ''Dell'', ''Asus''], sources = Some [''Daraz'']\<rparr>"
  using mergeFilters_precedence [of fixtureSidebar fixtureCriteria]
  by (simp add: fixtureSidebar_def fixtureCriteria_def mergeFilters_def nonEmpty_def
        orEmpty_def newSet_def)

section \<open>Context Router\<close>

text \<open>
  C4. The message \<open>hello\<close> with an empty history is casual. A message that contains one
  of the product keywords, in any letter case, is never casual, whatever the history; so
  \<open>hello\<close> followed by anything that ends in \<open>laptop\<close> is not casual. The message
  \<open>which one is better\<close>, with a history whose most recent assistant turn with items
  carried the two items \<open>p1\<close> and \<open>p2\<close>, is contextual with exactly these prior items;
  with an empty history it is fresh.
\<close>

theorem route_examples:
  "route ''hello'' ([] :: Message list) = Casual
   \<and> (\<forall>message (history :: Message list) k. k \<in> set casualProductKeywords \<and> includesStr (toLowerCase message) k
         \<longrightarrow> route message history \<noteq> Casual)
   \<and> (\<forall>greeting (history :: Message list). route (''hello'' @ greeting @ ''laptop'') history \<noteq> Casual)
   \<and> (\<forall>(older :: Message list) (m :: Message) (newer :: Message list) (p1 :: Product) (p2 :: Product).
         role m = Assistant \<and> products m = Some [p1, p2]
         \<and> (\<forall>x \<in> set newer. \<not> (role x = Assistant \<and> nonEmpty (products x)))
         \<longrightarrow> route ''which one is better'' (older @ [m] @ newer) = Contextual [p1, p2])
   \<and> route ''which one is better'' ([] :: Message list) = Fresh"
proof (intro conjI allI impI)
  show "route ''hello'' [] = Casual"
    using hello_casual by (simp add: route_def)
next
  fix message :: string and history :: "Message list" and k
  assume "k \<in> set casualProductKeywords \<and> includesStr (toLowerCase message) k"
  then have "\<not> isCasualMessage message" using keyword_not_casual by blast
  then show "route message history \<noteq> Casual" by (simp add: route_def)
next
  fix greeting :: string and history :: "Message list"
  have "includesStr (toLowerCase (''hello'' @ greeting @ ''laptop'')) ''laptop''"
    unfolding includesStr_iff
    by (rule exI[of _ "toLowerCase (''hello'' @ greeting)"], rule exI[of _ "[]"])
       (simp add: toLowerCase_def lowerChar_def)
  moreover have "''laptop'' \<in> set casualProductKeywords"
    by (simp add: casualProductKeywords_def)
  ultimately have "\<not> isCasualMessage (''hello'' @ greeting @ ''laptop'')"
    using keyword_not_casual by blast
  then show "route (''hello'' @ greeting @ ''laptop'') history \<noteq> Casual" by (simp add: route_def)
next
  fix older :: "Message list" and m :: Message and newer :: "Message list" and p1 p2 :: Product
  assume a: "role m = Assistant \<and> products m = Some [p1, p2]
             \<and> (\<forall>x \<in> set newer. \<not> (role x = Assistant \<and> nonEmpty (products x)))"
  then have "previousProducts (older @ [m] @ newer) = [p1, p2]"
    by (intro previousProducts_last) auto
  then show "route ''which one is better'' (older @ [m] @ newer) = Contextual [p1, p2]"
    using which_not_casual which_uses_history[of "older @ [m] @ newer"]
    by (simp add: route_def)
next
  show "route ''which one is better'' [] = Fresh"
    using which_not_casual which_uses_history[of "[]"] by (simp add: route_def)
qed

theorem route_examples_witness:
  "''laptop'' \<in> set casualProductKeywords
   \<and> includesStr (toLowerCase ''Hello, any Laptop?'') ''laptop''
   \<and> route ''Hello, any Laptop?'' fixtureHistory \<noteq> Casual
   \<and> role (fixtureHistory ! 1) = Assistant
   \<and> products (fixtureHistory ! 1) = Some [fixtureProducts ! 0, fixtureProducts ! 1]
   \<and> route ''which one is better'' fixtureHistory
       = Contextual [fixtureProducts ! 0, fixtureProducts ! 1]"
proof -
  have kw: "''laptop'' \<in> set casualProductKeywords"
    by (simp add: casualProductKeywords_def)
  have inc: "includesStr (toLowerCase ''Hello, any Laptop?'') ''laptop''"
    by (simp add: toLowerCase_def lowerChar_def)
  have r1: "route ''Hello, any Laptop?'' fixtureHistory \<noteq> Casual"
    using route_examples kw inc by blast
  have two: "take 2 fixtureProducts = [fixtureProducts ! 0, fixtureProducts ! 1]"
    by (simp add: fixtureProducts_def)
  have h: "fixtureHistory =
             [\<lparr>role = User, content = ''show me laptops'', products = None\<rparr>]
             @ [\<lparr>role = Assistant, content = ''Here are two laptops.'',
                 products = Some [fixtureProducts ! 0, fixtureProducts ! 1]\<rparr>]
             @ [\<lparr>role = User, content = ''ok'', products = None\<rparr>]"
    by (simp add: fixtureHistory_def two)
  have r2: "route ''which one is better'' fixtureHistory
              = Contextual [fixtureProducts ! 0, fixtureProducts ! 1]"
    unfolding h
    by (rule route_examples[THEN conjunct2, THEN conjunct2, THEN conjunct2, THEN conjunct1,
              rule_format])
       simp
  show ?thesis using kw inc r1 r2 by (simp add: h)
qed

section \<open>Budget-Feasibility Guard\<close>

text \<open>
  C5 (as amended). A merged filter exists for the requests that reach the merge, those the
  router answers neither as casual nor from prior items. For every such request whose
  query names a complete system (\<open>laptop\<close>, \<open>desktop\<close>, \<open>pc\<close> or \<open>computer\<close>) and no
  accessory keyword, and whose merged upper price bound is positive and below the guard's
  threshold \<open>25000\<close>, the handler answers before any embedding, retrieval or generation
  call: the response displays no item, its text offers the price floor of the product
  class (desktops from \<open>35000\<close> when the query contains \<open>desktop\<close> or \<open>pc\<close>, laptops
  from \<open>30000\<close> otherwise), and the only call made is the query interpretation.
\<close>

theorem budget_guard_short_circuit:
  fixes env :: "'v Env" and req :: Request
  assumes "route (req_message req) (req_conversationHistory req) = Fresh"
    and "isLookingForCompleteSystem (toLowerCase (req_message req))"
    and "\<not> isLookingForAccessories (toLowerCase (req_message req))"
    and "mergeFilters (req_filters req)
           (case env_parseQuery env (req_message req) of
              None \<Rightarrow> emptyParsedQuery | Some pq \<Rightarrow> pq) = Inr mergedFilters"
    and "priceRange mergedFilters = Some (lo, hi)"
    and "0 < hi" and "hi < 25000"
  shows "displayItems (fst (POST env req)) = Some []
         \<and> (\<exists>text. narrative (fst (POST env req)) = Some text
               \<and> includesStr text
                   (if includesStr (toLowerCase (req_message req)) ''desktop''
                       \<or> includesStr (toLowerCase (req_message req)) ''pc''
                    then ''Budget desktops starting from '' @ env_toLocaleString env 35000 @ taka
                    else ''Budget laptops starting from '' @ env_toLocaleString env 30000 @ taka))
         \<and> snd (POST env req) = [CallParseQuery]
         \<and> CallGenerateEmbedding \<notin> set (snd (POST env req))
         \<and> CallSearchProducts \<notin> set (snd (POST env req))
         \<and> CallQueryLLM \<notin> set (snd (POST env req))"
proof -
  let ?q = "toLowerCase (req_message req)"
  have ne: "req_message req \<noteq> []"
    using assms(2) empty_not_complete_system by auto
  have guard: "unrealisticBudget ?q hi"
    using assms by (simp add: unrealisticBudget_def)
  have post: "POST env req =
                (systemResponse (unrealisticBudgetMessage env ?q hi) ''unrealistic-budget'',
                 [CallParseQuery])"
    using ne assms(1,4,5) guard
    by (simp add: POST_def fresh_def Let_def)
  have offer: "includesStr (unrealisticBudgetMessage env ?q hi)
                 (if includesStr ?q ''desktop'' \<or> includesStr ?q ''pc''
                  then ''Budget desktops starting from '' @ env_toLocaleString env 35000 @ taka
                  else ''Budget laptops starting from '' @ env_toLocaleString env 30000 @ taka)"
    using unrealisticBudgetMessage_floor[of env ?q hi]
    unfolding budget_offer_by_query[of ?q "env_toLocaleString env"] .
  show ?thesis
    using offer by (simp add: post systemResponse_def)
qed

theorem budget_guard_short_circuit_witness:
  "route (req_message (fixtureRequest ''gaming laptop'' []))
         (req_conversationHistory (fixtureRequest ''gaming laptop'' [])) = Fresh
   \<and> isLookingForCompleteSystem (toLowerCase (req_message (fixtureRequest ''gaming laptop'' [])))
   \<and> \<not> isLookingForAccessories (toLowerCase (req_message (fixtureRequest ''gaming laptop'' [])))
   \<and> priceRange (fixtureFilters (Some (0, 15000))) = Some (0, 15000)
   \<and> displayItems (fst (POST (fixtureEnv []) (fixtureRequest ''gaming laptop'' []))) = Some []
   \<and> (\<exists>text. narrative (fst (POST (fixtureEnv []) (fixtureRequest ''gaming laptop'' [])))
                 = Some text
         \<and> includesStr text (''Budget laptops starting from 30,000'' @ taka))
   \<and> snd (POST (fixtureEnv []) (fixtureRequest ''gaming laptop'' [])) = [CallParseQuery]"
proof -
  have h1: "route (req_message (fixtureRequest ''gaming laptop'' []))
                  (req_conversationHistory (fixtureRequest ''gaming laptop'' [])) = Fresh"
    by (simp add: fixtureRequest_def post_eval)
  have h2: "isLookingForCompleteSystem
              (toLowerCase (req_message (fixtureRequest ''gaming laptop'' [])))"
    by (simp add: fixtureRequest_def isLookingForCompleteSystem_def toLowerCase_def lowerChar_def)
  have h3: "\<not> isLookingForAccessories
                (toLowerCase (req_message (fixtureRequest ''gaming laptop'' [])))"
    by (simp add: fixtureRequest_def isLookingForAccessories_def toLowerCase_def lowerChar_def)
  have h4: "mergeFilters (req_filters (fixtureRequest ''gaming laptop'' []))
              (case env_parseQuery (fixtureEnv []) (req_message (fixtureRequest ''gaming laptop'' [])) of
                 None \<Rightarrow> emptyParsedQuery | Some pq \<Rightarrow> pq)
            = Inr (fixtureFilters (Some (0, 15000)))"
    by (simp add: fixtureRequest_def fixtureEnv_def mergeFilters_def emptyParsedQuery_def
          nonEmpty_def fixtureFilters_def)
  have h5: "priceRange (fixtureFilters (Some (0, 15000))) = Some (0, 15000)"
    by (simp add: fixtureFilters_def)
  have q: "\<not> (includesStr (toLowerCase (req_message (fixtureRequest ''gaming laptop'' []))) ''desktop''
              \<or> includesStr (toLowerCase (req_message (fixtureRequest ''gaming laptop'' []))) ''pc'')"
    by (simp add: fixtureRequest_def toLowerCase_def lowerChar_def)
  have f: "env_toLocaleString (fixtureEnv []) 30000 = ''30,000''"
    by (simp add: fixtureEnv_def fixtureLocale_def)
  note t = budget_guard_short_circuit[OF h1 h2 h3 h4 h5]
  have t': "displayItems (fst (POST (fixtureEnv []) (fixtureRequest ''gaming laptop'' []))) = Some []
            \<and> (\<exists>text. narrative (fst (POST (fixtureEnv []) (fixtureRequest ''gaming laptop'' [])))
                          = Some text
                  \<and> includesStr text (''Budget laptops starting from '' @ ''30,000'' @ taka))
            \<and> snd (POST (fixtureEnv []) (fixtureRequest ''gaming laptop'' [])) = [CallParseQuery]"
    using t q unfolding f[symmetric] by auto
  show ?thesis using t' h1 h2 h3 h5 by simp
qed

text \<open>
  The claim as first stated puts the bound below the realism floor of the product class,
  which the handler itself gives as \<open>30000\<close> for a laptop (\<open>minRealisticPrice\<close>). The
  guard's threshold is lower: a fresh request for a \<open>gaming laptop\<close> whose merged upper
  bound is \<open>27000\<close> is embedded, searched and answered by the generator, and the item
  found is displayed.
\<close>

theorem budget_guard_counterexample:
  "route ''gaming laptop'' [] = Fresh
   \<and> isLookingForCompleteSystem (toLowerCase ''gaming laptop'')
   \<and> \<not> isLookingForAccessories (toLowerCase ''gaming laptop'')
   \<and> mergeFilters (req_filters (fixtureRequestCapped 27000 ''gaming laptop'' []))
        (case env_parseQuery (fixtureBudgetEnv ''One fits.'') ''gaming laptop'' of
           None \<Rightarrow> emptyParsedQuery | Some pq \<Rightarrow> pq)
       = Inr (fixtureFilters (Some (0, 27000)))
   \<and> productTypeOf (toLowerCase ''gaming laptop'') = ''laptop''
   \<and> (0 :: int) < 27000 \<and> 27000 < minRealisticPrice ''laptop''
   \<and> displayItems (fst (POST (fixtureBudgetEnv ''One fits.'')
                            (fixtureRequestCapped 27000 ''gaming laptop'' [])))
       = Some [toProduct (mkMatch ''e'' (9 / 10) ''Laptop'' 26000 26500)]
   \<and> snd (POST (fixtureBudgetEnv ''One fits.'') (fixtureRequestCapped 27000 ''gaming laptop'' []))
       = [CallParseQuery, CallGenerateEmbedding, CallSearchProducts, CallQueryLLM]"
  by code_simp

section \<open>Selection Resolver\<close>

text \<open>
  Where the resolver finds the declared selection: on a raw output made of a text without
  an opening brace followed by a selection object that the pattern matches whole and that
  parses to the references \<open>[1, 3]\<close>, it returns candidates 1 and 3 of five, and the
  narrative is the preceding text, trimmed.
\<close>

lemma resolver_selects_without_brace:
  assumes "CHR ''{'' \<notin> set pre"
    and "rxAt selectionObjectRx obj = Some m" and "rx_matched m = obj" and "rx_after m = []"
    and "JSON_parse obj = Some (JObj kvs)"
    and "getProperty kvs ''selected_product_ids'' = Some (JArr [JNum 1, JNum 3])"
  shows "resolveFresh (pre @ obj) parsedQuery [c1, c2, c3, c4, c5] = (Some [c1, c3], trim pre)
         \<and> \<not> includesStr (trim pre) obj"
proof -
  have "parseSelection (pre @ obj) = (Ids [1, 3], trim pre)"
    using parseSelection_object[OF assms(1-5)] assms(6) by simp
  then have r: "resolveFresh (pre @ obj) parsedQuery [c1, c2, c3, c4, c5] = (Some [c1, c3], trim pre)"
    by (simp add: resolveFresh_def displayFresh_def selectProducts_1_3)
  have "CHR ''{'' \<in> set obj" using rxAt_matched_brace[OF assms(2)] assms(3) by simp
  moreover have "CHR ''{'' \<notin> set (trim pre)" using assms(1) set_trim by blast
  ultimately have "\<not> includesStr (trim pre) obj"
    by (auto simp: includesStr_iff)
  with r show ?thesis by simp
qed

text \<open>
  C6. The claim asks, for every raw output that ends in a parsable selection object
  referencing \<open>[1, 3]\<close> and a list of five candidates, for exactly candidates 1 and 3
  and a narrative from which the object and any code fencing are stripped. The handler
  breaks it at the three outputs evaluated here. With a brace earlier in the narrative the
  pattern starts at that brace, the matched text is not JSON, and the fallback shows all
  five candidates and leaves the object in the narrative. With the object inside a code
  fence, or after a fence opener, candidates 1 and 3 are shown but the fence markers stay
  in the narrative: the object is cut out first, and the fence pattern, which needs the
  object, then finds nothing to cut.
\<close>

theorem resolver_breaks_on_brace_and_fence:
  "JSON_parse (selectionText ''[1, 3]'')
     = Some (JObj [(''selected_product_ids'', JArr [JNum 1, JNum 3])])
   \<and> length fixtureProducts = 5
   \<and> resolveFresh (''Specs {RAM, SSD} matter. '' @ selectionText ''[1, 3]'') emptyParsedQuery
        fixtureProducts
       = (Some fixtureProducts, ''Specs {RAM, SSD} matter. '' @ selectionText ''[1, 3]'')
   \<and> fixtureProducts \<noteq> [fixtureProducts ! 0, fixtureProducts ! 2]
   \<and> includesStr (''Specs {RAM, SSD} matter. '' @ selectionText ''[1, 3]'')
        (selectionText ''[1, 3]'')
   \<and> resolveFresh (''Two picks. ```json'' @ newline @ selectionText ''[1, 3]'' @ newline @ ''```'')
        emptyParsedQuery fixtureProducts
       = (Some [fixtureProducts ! 0, fixtureProducts ! 2],
          ''Two picks. ```json'' @ newline @ newline @ ''```'')
   \<and> resolveFresh (''Two picks. ```json'' @ newline @ selectionText ''[1, 3]'')
        emptyParsedQuery fixtureProducts
       = (Some [fixtureProducts ! 0, fixtureProducts ! 2], ''Two picks. ```json'')"
  by code_simp

text \<open>
  C7. When no selection object can be parsed from the raw output (the patterns find
  nothing, or what they find is not JSON), the resolver returns the first \<open>n\<close>
  candidates in their order, with \<open>n\<close> fixed by the intent: \<open>1\<close> for \<open>single\<close>, \<open>3\<close> for
  \<open>comparison\<close>, \<open>5\<close> for \<open>multiple\<close> and by default; with intent \<open>comparison\<close> these
  are exactly the first three. The narrative is the raw output and the handler answers
  with a normal response carrying these items.
\<close>

theorem resolver_fallback:
  assumes "jsonMatch raw = None \<or> (\<exists>m. jsonMatch raw = Some m \<and> JSON_parse m = None)"
  shows "resolveFresh raw parsedQuery ps = (Some (take (productSliceCount parsedQuery) ps), raw)
         \<and> productSliceCount parsedQuery =
             (case pq_intent parsedQuery of
                None \<Rightarrow> 5
              | Some i \<Rightarrow> (case productCount i of
                             Single \<Rightarrow> 1 | Comparison \<Rightarrow> 3 | Multiple \<Rightarrow> 5 | AnyCount \<Rightarrow> 5))
         \<and> (\<forall>i. pq_intent parsedQuery = Some i \<and> productCount i = Comparison
                \<longrightarrow> fst (resolveFresh raw parsedQuery ps) = Some (take 3 ps))
         \<and> (\<forall>(env :: 'v Env) message provider history calls r.
               env_queryLLM env message (FreshContext ps (pq_intent parsedQuery) history) provider
                 = Some r \<and> llm_content r = raw
               \<longrightarrow> generate env message provider history parsedQuery ps calls
                     = (llmAnswer r raw (take (productSliceCount parsedQuery) ps) (length ps),
                        calls @ [CallQueryLLM]))"
proof -
  have p: "parseSelection raw = (Ids [], raw)" using assms by (rule fallback_parse)
  have r: "resolveFresh raw parsedQuery ps = (Some (take (productSliceCount parsedQuery) ps), raw)"
    by (simp add: resolveFresh_def p displayFresh_def)
  have c: "productSliceCount parsedQuery =
             (case pq_intent parsedQuery of
                None \<Rightarrow> 5
              | Some i \<Rightarrow> (case productCount i of
                             Single \<Rightarrow> 1 | Comparison \<Rightarrow> 3 | Multiple \<Rightarrow> 5 | AnyCount \<Rightarrow> 5))"
    by (simp add: productSliceCount_def split: option.splits ProductCount.splits)
  have g: "generate env message provider history parsedQuery ps calls
             = (llmAnswer r' raw (take (productSliceCount parsedQuery) ps) (length ps),
                calls @ [CallQueryLLM])"
    if "env_queryLLM env message (FreshContext ps (pq_intent parsedQuery) history) provider = Some r'"
       "llm_content r' = raw"
    for env :: "'v Env" and message provider history calls r'
    using that by (simp add: generate_def r)
  show ?thesis using r c g by (auto simp: productSliceCount_def)
qed

theorem resolver_fallback_witness:
  "jsonMatch (''Two picks. '' @ selectionText ''[1, 3'') = Some (selectionText ''[1, 3'')
   \<and> JSON_parse (selectionText ''[1, 3'') = None
   \<and> pq_intent fixtureComparison = Some \<lparr>productCount = Comparison, action = Compare\<rparr>
   \<and> resolveFresh (''Two picks. '' @ selectionText ''[1, 3'') fixtureComparison fixtureProducts
       = (Some [fixtureProducts ! 0, fixtureProducts ! 1, fixtureProducts ! 2],
          ''Two picks. '' @ selectionText ''[1, 3'')"
proof -
  have h1: "jsonMatch (''Two picks. '' @ selectionText ''[1, 3'') = Some (selectionText ''[1, 3'')"
    by code_simp
  have h2: "JSON_parse (selectionText ''[1, 3'') = None"
    by code_simp
  have h3: "pq_intent fixtureComparison = Some \<lparr>productCount = Comparison, action = Compare\<rparr>"
    by (simp add: fixtureComparison_def)
  have three: "take 3 fixtureProducts = [fixtureProducts ! 0, fixtureProducts ! 1, fixtureProducts ! 2]"
    by code_simp
  have "jsonMatch (''Two picks. '' @ selectionText ''[1, 3'') = None
        \<or> (\<exists>m. jsonMatch (''Two picks. '' @ selectionText ''[1, 3'') = Some m \<and> JSON_parse m = None)"
    using h1 h2 by simp
  from resolver_fallback[OF this, of fixtureComparison fixtureProducts, where 'v = unit]
  have "resolveFresh (''Two picks. '' @ selectionText ''[1, 3'') fixtureComparison fixtureProducts
          = (Some (take 3 fixtureProducts), ''Two picks. '' @ selectionText ''[1, 3'')"
    using h3 by simp
  then show ?thesis using h1 h2 h3 three by simp
qed

text \<open>
  C8 (as amended). For every fresh-path response built from a parsed, non-empty selection,
  the displayed items are a subset of the retrieved candidates: the references that are
  in range, mapped back 1-indexed in their declared order, the others dropped. Their
  number is the number of references in range, at most the reference count and equal to
  it when every reference is in range.
\<close>

theorem resolver_subset:
  assumes "parseSelection raw = (Ids ids, cleaned)" and "ids \<noteq> []"
  shows "\<exists>shown. resolveFresh raw parsedQuery ps = (Some shown, cleaned)
           \<and> set shown \<subseteq> set ps
           \<and> shown = map (\<lambda>i. ps ! (nat \<lfloor>i\<rfloor> - 1)) (filter (validReference ps) ids)
           \<and> length shown = length (filter (validReference ps) ids)
           \<and> length shown \<le> length ids
           \<and> ((\<forall>i \<in> set ids. validReference ps i) \<longrightarrow> length shown = length ids)"
proof -
  have r: "resolveFresh raw parsedQuery ps = (Some (selectProducts ps ids), cleaned)"
    using assms by (simp add: resolveFresh_def displayFresh_def)
  have "(\<forall>i \<in> set ids. validReference ps i) \<longrightarrow> length (selectProducts ps ids) = length ids"
    by (simp add: length_selectProducts)
  then show ?thesis
    using r set_selectProducts[of ps ids] selectProducts_eq[of ps ids]
      length_selectProducts[of ps ids] length_filter_le[of "validReference ps" ids]
    by auto
qed

theorem resolver_subset_witness:
  "parseSelection (''Two picks. '' @ selectionText ''[1, 3]'') = (Ids [1, 3], ''Two picks.'')
   \<and> (\<exists>shown. resolveFresh (''Two picks. '' @ selectionText ''[1, 3]'') emptyParsedQuery
                  fixtureProducts = (Some shown, ''Two picks.'')
         \<and> set shown \<subseteq> set fixtureProducts
         \<and> length shown = length [1, 3 :: rat])"
proof -
  have h1: "parseSelection (''Two picks. '' @ selectionText ''[1, 3]'') = (Ids [1, 3], ''Two picks.'')"
    by code_simp
  have h2: "[1, 3 :: rat] \<noteq> []" by simp
  have v: "\<forall>i \<in> set [1, 3 :: rat]. validReference fixtureProducts i"
    by code_simp
  from resolver_subset[OF h1 h2, of emptyParsedQuery fixtureProducts] v h1
  show ?thesis by auto
qed

text \<open>
  The claim as first stated has the length always match the reference count; the
  references \<open>[1, 9]\<close> against five candidates display one item.
\<close>

theorem resolver_subset_counterexample:
  "parseSelection (''Two picks. '' @ selectionText ''[1, 9]'') = (Ids [1, 9], ''Two picks.'')
   \<and> length fixtureProducts = 5
   \<and> resolveFresh (''Two picks. '' @ selectionText ''[1, 9]'') emptyParsedQuery fixtureProducts
       = (Some [fixtureProducts ! 0], ''Two picks.'')
   \<and> length [fixtureProducts ! 0] \<noteq> length [1, 9 :: rat]"
  by code_simp

text \<open>
  C9. On the fresh path, where the resolver only runs on a non-empty candidate list, a
  parsable selection object that declares the empty list is resolved like an unparsable
  output: the first candidates in their order, one for intent \<open>single\<close>, three for
  \<open>comparison\<close>, five for \<open>multiple\<close> and by default; so between one and five items
  are displayed, not zero. Over all raw outputs, the resolver displays zero items exactly
  when the output declares a non-empty list none of whose entries refers to a candidate;
  for a number, that is a reference out of range.
\<close>

theorem empty_selection_falls_back:
  assumes "jsonMatch raw = Some m" and "JSON_parse m = Some (JObj kvs)"
    and "getProperty kvs ''selected_product_ids'' = Some (JArr [])"
    and "ps \<noteq> []"
  shows "fst (resolveFresh raw parsedQuery ps)
           = Some (take (case pq_intent parsedQuery of
                           None \<Rightarrow> 5
                         | Some i \<Rightarrow> (case productCount i of
                                        Single \<Rightarrow> 1 | Comparison \<Rightarrow> 3
                                      | Multiple \<Rightarrow> 5 | AnyCount \<Rightarrow> 5)) ps)
         \<and> (\<forall>raw0. jsonMatch raw0 = None
                     \<or> (\<exists>m0. jsonMatch raw0 = Some m0 \<and> JSON_parse m0 = None)
               \<longrightarrow> fst (resolveFresh raw0 parsedQuery ps) = fst (resolveFresh raw parsedQuery ps))
         \<and> (\<exists>shown. fst (resolveFresh raw parsedQuery ps) = Some shown
               \<and> 1 \<le> length shown \<and> length shown \<le> 5)
         \<and> (\<forall>(env :: 'v Env) message provider history calls r.
               env_queryLLM env message (FreshContext ps (pq_intent parsedQuery) history) provider
                 = Some r \<and> llm_content r = raw
               \<longrightarrow> displayItems (fst (generate env message provider history parsedQuery ps calls))
                     = fst (resolveFresh raw parsedQuery ps))
         \<and> (\<forall>raw'. fst (resolveFresh raw' parsedQuery ps) = Some [] \<longleftrightarrow>
               (\<exists>xs. declaredList (fst (parseSelection raw')) = Some xs \<and> xs \<noteq> []
                     \<and> (\<forall>x \<in> set xs. referencedItem ps x = Inr None)))
         \<and> (\<forall>n. referencedItem ps (JNum n) = Inr None \<longleftrightarrow> \<not> validReference ps n)"
proof -
  let ?n = "case pq_intent parsedQuery of
              None \<Rightarrow> 5
            | Some i \<Rightarrow> (case productCount i of
                           Single \<Rightarrow> 1 | Comparison \<Rightarrow> 3 | Multiple \<Rightarrow> 5 | AnyCount \<Rightarrow> (5::nat))"
  have n: "productSliceCount parsedQuery = ?n"
    by (simp add: productSliceCount_def split: option.splits ProductCount.splits)
  have p: "fst (parseSelection raw) = Ids []"
    using assms(1-3) by (simp add: parseSelection_def)
  have r: "fst (resolveFresh raw parsedQuery ps) = Some (take ?n ps)"
    using p unfolding n[symmetric]
    by (cases "parseSelection raw") (simp add: resolveFresh_def displayFresh_def)
  have same: "fst (resolveFresh raw0 parsedQuery ps) = fst (resolveFresh raw parsedQuery ps)"
    if "jsonMatch raw0 = None \<or> (\<exists>m0. jsonMatch raw0 = Some m0 \<and> JSON_parse m0 = None)"
    for raw0
    using fallback_parse[OF that] r unfolding n[symmetric]
    by (simp add: resolveFresh_def displayFresh_def)
  have len: "1 \<le> length (take ?n ps) \<and> length (take ?n ps) \<le> 5"
    using assms(4) productSliceCount_bounds[of parsedQuery] unfolding n
    by (cases ps) auto
  have g: "displayItems (fst (generate env message provider history parsedQuery ps calls))
             = fst (resolveFresh raw parsedQuery ps)"
    if "env_queryLLM env message (FreshContext ps (pq_intent parsedQuery) history) provider = Some r'"
       "llm_content r' = raw"
    for env :: "'v Env" and message provider history calls r'
    using that r
    by (cases "resolveFresh raw parsedQuery ps") (simp add: generate_def llmAnswer_def)
  have z: "fst (resolveFresh raw' parsedQuery ps) = Some [] \<longleftrightarrow>
             (\<exists>xs. declaredList (fst (parseSelection raw')) = Some xs \<and> xs \<noteq> []
                   \<and> (\<forall>x \<in> set xs. referencedItem ps x = Inr None))" for raw'
    using displayFresh_empty_iff[OF assms(4), of "fst (parseSelection raw')" parsedQuery]
    by (cases "parseSelection raw'") (simp add: resolveFresh_def)
  show ?thesis using r same len g z referencedItem_none_iff[of ps] by blast
qed

theorem empty_selection_falls_back_witness:
  "jsonMatch (''Nothing fits. '' @ selectionText ''[]'') = Some (selectionText ''[]'')
   \<and> JSON_parse (selectionText ''[]'') = Some (JObj [(''selected_product_ids'', JArr [])])
   \<and> fixtureProducts \<noteq> []
   \<and> pq_intent fixtureSingle = Some \<lparr>productCount = Single, action = Find\<rparr>
   \<and> fst (resolveFresh (''Nothing fits. '' @ selectionText ''[]'') fixtureSingle fixtureProducts)
       = Some [fixtureProducts ! 0]
   \<and> fst (resolveFresh (''Nothing fits. '' @ selectionText ''[]'') fixtureComparison
             fixtureProducts)
       = Some [fixtureProducts ! 0, fixtureProducts ! 1, fixtureProducts ! 2]
   \<and> fst (resolveFresh (''Nothing fits. '' @ selectionText ''[7, 8]'') fixtureSingle
             fixtureProducts) = Some []
   \<and> fst (resolveFresh (''Nothing fits. '' @ selectionText (''['' @ quoted ''9'' @ '']'')) fixtureSingle
             fixtureProducts) = Some []"
proof -
  have h1: "jsonMatch (''Nothing fits. '' @ selectionText ''[]'') = Some (selectionText ''[]'')"
    by code_simp
  have h2: "JSON_parse (selectionText ''[]'') = Some (JObj [(''selected_product_ids'', JArr [])])"
    by code_simp
  have h3: "getProperty [(''selected_product_ids'', JArr [])] ''selected_product_ids'' = Some (JArr [])"
    by (simp add: getProperty_def)
  have h4: "fixtureProducts \<noteq> []" by code_simp
  have i1: "pq_intent fixtureSingle = Some \<lparr>productCount = Single, action = Find\<rparr>"
    by (simp add: fixtureSingle_def)
  have i3: "pq_intent fixtureComparison = Some \<lparr>productCount = Comparison, action = Compare\<rparr>"
    by (simp add: fixtureComparison_def)
  have one: "take 1 fixtureProducts = [fixtureProducts ! 0]"
    by code_simp
  have three: "take 3 fixtureProducts = [fixtureProducts ! 0, fixtureProducts ! 1, fixtureProducts ! 2]"
    by code_simp
  have p7: "declaredList (fst (parseSelection (''Nothing fits. '' @ selectionText ''[7, 8]'')))
              = Some [JNum 7, JNum 8]"
    by code_simp
  have p9: "declaredList (fst (parseSelection (''Nothing fits. '' @ selectionText (''['' @ quoted ''9'' @ '']''))))
              = Some [JStr ''9'']"
    by code_simp
  have v7: "\<forall>x \<in> set [JNum 7, JNum 8]. referencedItem fixtureProducts x = Inr None"
    by code_simp
  have v9: "\<forall>x \<in> set [JStr ''9'']. referencedItem fixtureProducts x = Inr None"
    by code_simp
  have n1: "(case pq_intent fixtureSingle of
               None \<Rightarrow> 5
             | Some i \<Rightarrow> (case productCount i of
                            Single \<Rightarrow> 1 | Comparison \<Rightarrow> 3 | Multiple \<Rightarrow> 5 | AnyCount \<Rightarrow> 5))
            = (1 :: nat)"
    by (simp add: i1)
  have n3: "(case pq_intent fixtureComparison of
               None \<Rightarrow> 5
             | Some i \<Rightarrow> (case productCount i of
                            Single \<Rightarrow> 1 | Comparison \<Rightarrow> 3 | Multiple \<Rightarrow> 5 | AnyCount \<Rightarrow> 5))
            = (3 :: nat)"
    by (simp add: i3)
  note t1 = empty_selection_falls_back[OF h1 h2 h3 h4, of fixtureSingle, where 'v = unit]
  note t3 = empty_selection_falls_back[OF h1 h2 h3 h4, of fixtureComparison, where 'v = unit]
  have a: "fst (resolveFresh (''Nothing fits. '' @ selectionText ''[]'') fixtureSingle fixtureProducts)
             = Some [fixtureProducts ! 0]"
    using t1[THEN conjunct1] unfolding n1 one .
  have b: "fst (resolveFresh (''Nothing fits. '' @ selectionText ''[]'') fixtureComparison
                  fixtureProducts)
             = Some [fixtureProducts ! 0, fixtureProducts ! 1, fixtureProducts ! 2]"
    using t3[THEN conjunct1] unfolding n3 three .
  have c: "fst (resolveFresh (''Nothing fits. '' @ selectionText ''[7, 8]'') fixtureSingle
                  fixtureProducts) = Some []"
    using t1 p7 v7 by blast
  have d: "fst (resolveFresh (''Nothing fits. '' @ selectionText (''['' @ quoted ''9'' @ '']'')) fixtureSingle
                  fixtureProducts) = Some []"
    using t1 p9 v9 by blast
  show ?thesis using h1 h2 h4 i1 a b c d by simp
qed

text \<open>
  C10. On the follow-up path the prior items are those of the most recent assistant turn
  that carried items. When no selection object can be parsed from the generator's output
  the response displays all of them; when a non-empty selection is parsed it displays the
  referenced prior items, in the declared order, without the references out of range.
\<close>

theorem follow_up_display_items:
  fixes env :: "'v Env" and req :: Request
  assumes "route (req_message req) (req_conversationHistory req) = Contextual prior"
    and "env_queryLLM env (req_message req)
           (FollowUpContext prior (req_conversationHistory req))
           (case req_provider req of None \<Rightarrow> ProviderGemini | Some p \<Rightarrow> p) = Some r"
  shows "prior = previousProducts (req_conversationHistory req)
         \<and> (\<forall>older m newer items.
               req_conversationHistory req = older @ [m] @ newer
               \<and> role m = Assistant \<and> products m = Some items \<and> items \<noteq> []
               \<and> (\<forall>x \<in> set newer. \<not> (role x = Assistant \<and> nonEmpty (products x)))
               \<longrightarrow> prior = items)
         \<and> ((jsonMatch (llm_content r) = None
              \<or> (\<exists>m. jsonMatch (llm_content r) = Some m \<and> JSON_parse m = None))
             \<longrightarrow> displayItems (fst (POST env req)) = Some prior)
         \<and> (\<forall>ids cleaned. parseSelection (llm_content r) = (Ids ids, cleaned) \<and> ids \<noteq> []
               \<longrightarrow> displayItems (fst (POST env req))
                     = Some (map (\<lambda>i. prior ! (nat \<lfloor>i\<rfloor> - 1)) (filter (validReference prior) ids)))"
proof -
  have ne: "req_message req \<noteq> []"
    using assms(1) route_empty_message by auto
  have post: "POST env req =
                followUp env (req_message req)
                  (case req_provider req of None \<Rightarrow> ProviderGemini | Some p \<Rightarrow> p)
                  (req_conversationHistory req) prior"
    using ne assms(1) by (simp add: POST_def Let_def)
  have a: "displayItems (fst (POST env req)) = Some prior"
    if "jsonMatch (llm_content r) = None
        \<or> (\<exists>m. jsonMatch (llm_content r) = Some m \<and> JSON_parse m = None)"
    using fallback_parse[OF that] assms(2)
    by (simp add: post followUp_def resolveFollowUp_def displayFollowUp_def llmAnswer_def)
  have b: "displayItems (fst (POST env req))
             = Some (map (\<lambda>i. prior ! (nat \<lfloor>i\<rfloor> - 1)) (filter (validReference prior) ids))"
    if "parseSelection (llm_content r) = (Ids ids, cleaned)" "ids \<noteq> []" for ids cleaned
    using that assms(2)
    by (simp add: post followUp_def resolveFollowUp_def displayFollowUp_def llmAnswer_def
          selectProducts_eq)
  have c: "prior = items"
    if "req_conversationHistory req = older @ [m] @ newer"
       "role m = Assistant" "products m = Some items" "items \<noteq> []"
       "\<forall>x \<in> set newer. \<not> (role x = Assistant \<and> nonEmpty (products x))"
    for older m newer items
    using route_contextual_prior[OF assms(1)] previousProducts_last[OF that(2-5), of older]
    by (simp add: that(1))
  show ?thesis using route_contextual_prior[OF assms(1)] a b c by blast
qed

theorem follow_up_display_items_witness:
  "route (req_message (fixtureRequest ''which one is better'' fixtureHistory))
         (req_conversationHistory (fixtureRequest ''which one is better'' fixtureHistory))
     = Contextual [fixtureProducts ! 0, fixtureProducts ! 1]
   \<and> jsonMatch ''The first one.'' = None
   \<and> displayItems (fst (POST (fixtureEnv ''The first one.'')
                            (fixtureRequest ''which one is better'' fixtureHistory)))
       = Some [fixtureProducts ! 0, fixtureProducts ! 1]
   \<and> parseSelection (''The second. '' @ selectionText ''[2, 7]'') = (Ids [2, 7], ''The second.'')
   \<and> displayItems (fst (POST (fixtureEnv (''The second. '' @ selectionText ''[2, 7]''))
                            (fixtureRequest ''which one is better'' fixtureHistory)))
       = Some [fixtureProducts ! 1]"
proof -
  let ?req = "fixtureRequest ''which one is better'' fixtureHistory"
  let ?prior = "[fixtureProducts ! 0, fixtureProducts ! 1]"
  have h1: "route (req_message ?req) (req_conversationHistory ?req) = Contextual ?prior"
    by code_simp
  have l1: "env_queryLLM (fixtureEnv ''The first one.'') (req_message ?req)
              (FollowUpContext ?prior (req_conversationHistory ?req))
              (case req_provider ?req of None \<Rightarrow> ProviderGemini | Some p \<Rightarrow> p)
            = Some (fixtureReply ''The first one.'')"
    by (simp add: fixtureEnv_def)
  have l2: "env_queryLLM (fixtureEnv (''The second. '' @ selectionText ''[2, 7]'')) (req_message ?req)
              (FollowUpContext ?prior (req_conversationHistory ?req))
              (case req_provider ?req of None \<Rightarrow> ProviderGemini | Some p \<Rightarrow> p)
            = Some (fixtureReply (''The second. '' @ selectionText ''[2, 7]''))"
    by (simp add: fixtureEnv_def)
  have j: "jsonMatch ''The first one.'' = None"
    by code_simp
  have p: "parseSelection (''The second. '' @ selectionText ''[2, 7]'') = (Ids [2, 7], ''The second.'')"
    by code_simp
  have m: "map (\<lambda>i. ?prior ! (nat \<lfloor>i\<rfloor> - 1)) (filter (validReference ?prior) [2, 7 :: rat])
             = [fixtureProducts ! 1]"
    by (simp add: validReference_def)
  have a: "displayItems (fst (POST (fixtureEnv ''The first one.'') ?req)) = Some ?prior"
    using follow_up_display_items[OF h1 l1] j by (simp add: fixtureReply_def)
  have lc: "llm_content (fixtureReply x) = x" for x
    by (simp add: fixtureReply_def)
  note t2 = follow_up_display_items[OF h1 l2, THEN conjunct2, THEN conjunct2, THEN conjunct2,
              rule_format,
              of "[2, 7]" "''The second.''", unfolded lc m]
  have b: "displayItems (fst (POST (fixtureEnv (''The second. '' @ selectionText ''[2, 7]'')) ?req))
             = Some [fixtureProducts ! 1]"
    by (rule t2) (use p in simp)
  show ?thesis using h1 j a p b by simp
qed

end
